theory Spec2Isabelle
  imports Complex_Main
begin

section \<open>Profile generator\<close>

text \<open>
  The profile generator of \<^verbatim>\<open>automated.js\<close> (the same text stands in the bounded
  variant of the script): the connection table, the tier lookup, the IP table and the
  coordinate table, and the functions that draw from them.

  \<^verbatim>\<open>Math.random()\<close> yields a number in \<open>[0, 1)\<close>. Every function that calls it takes
  the drawn numbers as arguments, so a function of the model is the source function for
  one outcome of its draws.
\<close>

definition unit_draw :: "real \<Rightarrow> bool" where
  "unit_draw r = (0 \<le> r \<and> r < 1)"

text \<open>
  \<^verbatim>\<open>array[Math.floor(Math.random() * array.length)]\<close>. An index outside the array
  reads \<^verbatim>\<open>undefined\<close> in JavaScript, here \<open>None\<close>.
\<close>

definition getRandomElement :: "'a list \<Rightarrow> real \<Rightarrow> 'a option" where
  "getRandomElement array r =
     (let i = nat \<lfloor>r * real (length array)\<rfloor>
      in if i < length array then Some (array ! i) else None)"

subsection \<open>Connection descriptors and tiers\<close>

record connection =
  conn_type :: string
  downlink :: real
  effectiveType :: string
  rtt :: nat
  description :: string

definition connectionTypes :: "connection list" where
  "connectionTypes = [
    \<lparr>conn_type = ''fiber'', downlink = 100, effectiveType = ''4g'', rtt = 10, description = ''Fiber Broadband 100Mbps''\<rparr>,
    \<lparr>conn_type = ''fiber'', downlink = 50, effectiveType = ''4g'', rtt = 15, description = ''Fiber Broadband 50Mbps''\<rparr>,
    \<lparr>conn_type = ''fiber'', downlink = 25, effectiveType = ''4g'', rtt = 20, description = ''Fiber Broadband 25Mbps''\<rparr>,
    \<lparr>conn_type = ''cable'', downlink = 20, effectiveType = ''4g'', rtt = 25, description = ''Cable Broadband 20Mbps''\<rparr>,
    \<lparr>conn_type = ''cable'', downlink = 15, effectiveType = ''4g'', rtt = 30, description = ''Cable Broadband 15Mbps''\<rparr>,
    \<lparr>conn_type = ''dsl'', downlink = 8, effectiveType = ''4g'', rtt = 40, description = ''DSL Broadband 8Mbps''\<rparr>,
    \<lparr>conn_type = ''dsl'', downlink = 4, effectiveType = ''3g'', rtt = 60, description = ''DSL Broadband 4Mbps''\<rparr>,
    \<lparr>conn_type = ''4g'', downlink = 25, effectiveType = ''4g'', rtt = 30, description = ''Jio 4G Premium''\<rparr>,
    \<lparr>conn_type = ''4g'', downlink = 15, effectiveType = ''4g'', rtt = 40, description = ''Airtel 4G Plus''\<rparr>,
    \<lparr>conn_type = ''4g'', downlink = 12, effectiveType = ''4g'', rtt = 45, description = ''Vi 4G Network''\<rparr>,
    \<lparr>conn_type = ''4g'', downlink = 10, effectiveType = ''4g'', rtt = 50, description = ''BSNL 4G''\<rparr>,
    \<lparr>conn_type = ''4g'', downlink = 8, effectiveType = ''4g'', rtt = 55, description = ''Standard 4G''\<rparr>,
    \<lparr>conn_type = ''4g'', downlink = 5, effectiveType = ''4g'', rtt = 70, description = ''Budget 4G Plan''\<rparr>,
    \<lparr>conn_type = ''5g'', downlink = 200, effectiveType = ''4g'', rtt = 5, description = ''Jio True 5G''\<rparr>,
    \<lparr>conn_type = ''5g'', downlink = 150, effectiveType = ''4g'', rtt = 8, description = ''Airtel 5G Plus''\<rparr>,
    \<lparr>conn_type = ''5g'', downlink = 100, effectiveType = ''4g'', rtt = 10, description = ''Vi 5G Ultra''\<rparr>,
    \<lparr>conn_type = ''3g'', downlink = 3, effectiveType = ''3g'', rtt = 150, description = ''BSNL 3G''\<rparr>,
    \<lparr>conn_type = ''3g'', downlink = 2, effectiveType = ''3g'', rtt = 180, description = ''Legacy 3G Network''\<rparr>,
    \<lparr>conn_type = ''3g'', downlink = 1.5, effectiveType = ''3g'', rtt = 200, description = ''Rural 3G Connection''\<rparr>,
    \<lparr>conn_type = ''2g'', downlink = 0.5, effectiveType = ''2g'', rtt = 800, description = ''EDGE Connection''\<rparr>,
    \<lparr>conn_type = ''slow-2g'', downlink = 0.25, effectiveType = ''slow-2g'', rtt = 1500, description = ''GPRS Connection''\<rparr>,
    \<lparr>conn_type = ''wifi'', downlink = 50, effectiveType = ''4g'', rtt = 20, description = ''Office WiFi''\<rparr>,
    \<lparr>conn_type = ''wifi'', downlink = 30, effectiveType = ''4g'', rtt = 25, description = ''Home WiFi Premium''\<rparr>,
    \<lparr>conn_type = ''wifi'', downlink = 15, effectiveType = ''4g'', rtt = 35, description = ''Home WiFi Standard''\<rparr>,
    \<lparr>conn_type = ''wifi'', downlink = 8, effectiveType = ''4g'', rtt = 50, description = ''Public WiFi''\<rparr>,
    \<lparr>conn_type = ''wifi'', downlink = 5, effectiveType = ''3g'', rtt = 80, description = ''Cafe WiFi''\<rparr>,
    \<lparr>conn_type = ''satellite'', downlink = 10, effectiveType = ''4g'', rtt = 600, description = ''Satellite Internet''\<rparr>,
    \<lparr>conn_type = ''satellite'', downlink = 5, effectiveType = ''3g'', rtt = 800, description = ''VSAT Connection''\<rparr>]"

text \<open>
  The \<^verbatim>\<open>switch\<close> of \<^verbatim>\<open>getRandomConnectionType\<close>: which case a tier string selects.
\<close>

datatype tier_case = Case_tier1 | Case_tier2 | Case_tier3 | Case_rural | Case_default

definition switch_locationTier :: "string \<Rightarrow> tier_case" where
  "switch_locationTier locationTier =
     (if locationTier = ''tier1'' then Case_tier1
      else if locationTier = ''tier2'' then Case_tier2
      else if locationTier = ''tier3'' then Case_tier3
      else if locationTier = ''rural'' then Case_rural
      else Case_default)"

fun filteredConnections :: "tier_case \<Rightarrow> connection list" where
  "filteredConnections Case_tier1 =
     filter (\<lambda>conn. conn_type conn \<in> set [''fiber'', ''cable'', ''5g'', ''4g'', ''wifi'']
                    \<and> downlink conn \<ge> 5) connectionTypes"
| "filteredConnections Case_tier2 =
     filter (\<lambda>conn. conn_type conn \<in> set [''fiber'', ''cable'', ''4g'', ''3g'', ''wifi'', ''dsl'']
                    \<and> downlink conn \<ge> 2) connectionTypes"
| "filteredConnections Case_tier3 =
     filter (\<lambda>conn. conn_type conn \<in> set [''4g'', ''3g'', ''2g'', ''wifi'', ''dsl'']) connectionTypes"
| "filteredConnections Case_rural =
     filter (\<lambda>conn. conn_type conn \<in> set [''4g'', ''3g'', ''2g'', ''satellite'']
                    \<and> downlink conn \<le> 10) connectionTypes"
| "filteredConnections Case_default = connectionTypes"

definition getRandomConnectionType :: "string \<Rightarrow> real \<Rightarrow> connection option" where
  "getRandomConnectionType locationTier r =
     getRandomElement (filteredConnections (switch_locationTier locationTier)) r"

definition tier1Cities :: "string list" where
  "tier1Cities = [
    ''Mumbai'', ''New Delhi'', ''Bangalore'', ''Chennai'', ''Pune'', ''Hyderabad'',
    ''Kolkata'', ''Ahmedabad'', ''Gurgaon'', ''Noida'']"

definition tier2Cities :: "string list" where
  "tier2Cities = [
    ''Surat'', ''Jaipur'', ''Lucknow'', ''Kanpur'', ''Nagpur'', ''Indore'', ''Bhopal'',
    ''Visakhapatnam'', ''Patna'', ''Vadodara'', ''Ludhiana'', ''Agra'', ''Nashik'',
    ''Faridabad'', ''Meerut'', ''Rajkot'', ''Varanasi'', ''Aurangabad'', ''Amritsar'',
    ''Allahabad'', ''Ranchi'', ''Howrah'', ''Coimbatore'', ''Jabalpur'', ''Gwalior'',
    ''Vijayawada'', ''Jodhpur'', ''Madurai'', ''Raipur'', ''Kota'', ''Chandigarh'',
    ''Guwahati'', ''Solapur'', ''Hubli'', ''Mysore'', ''Tiruchirappalli'', ''Salem'',
    ''Thiruvananthapuram'', ''Guntur'', ''Bikaner'', ''Amravati'', ''Jamshedpur'', ''Bhilai'',
    ''Cuttack'', ''Kochi'', ''Bhavnagar'', ''Dehradun'', ''Durgapur'', ''Asansol'',
    ''Kolhapur'', ''Ajmer'', ''Gulbarga'', ''Jamnagar'', ''Ujjain'', ''Siliguri'', ''Jhansi'',
    ''Jammu'', ''Mangalore'', ''Erode'', ''Belgaum'', ''Tirunelveli'', ''Udaipur'']"

definition getLocationTier :: "string \<Rightarrow> string" where
  "getLocationTier cityName =
     (if cityName \<in> set tier1Cities then ''tier1''
      else if cityName \<in> set tier2Cities then ''tier2''
      else ''tier3'')"

subsection \<open>IP records and coordinates\<close>

record ip_entry =
  ip :: string
  isp :: string
  city :: string
  state :: string
  pincode :: string
  area :: string

record coords =
  lat :: real
  lng :: real

definition indianIPData :: "ip_entry list" where
  "indianIPData = [
    \<lparr>ip = ''203.122.58.'', isp = ''Bharti Airtel Ltd'', city = ''Mumbai'',
      state = ''Maharashtra'', pincode = ''400001'', area = ''Fort''\<rparr>,
    \<lparr>ip = ''117.239.195.'', isp = ''Reliance Jio Infocomm'', city = ''Mumbai'',
      state = ''Maharashtra'', pincode = ''400070'', area = ''Andheri''\<rparr>,
    \<lparr>ip = ''103.21.58.'', isp = ''Hathway Cable & Datacom'', city = ''Pune'',
      state = ''Maharashtra'', pincode = ''411001'', area = ''Shivaji Nagar''\<rparr>,
    \<lparr>ip = ''203.109.137.'', isp = ''You Broadband India'', city = ''Pune'',
      state = ''Maharashtra'', pincode = ''411014'', area = ''Hadapsar''\<rparr>,
    \<lparr>ip = ''103.87.169.'', isp = ''Spectranet Pvt Ltd'', city = ''Nagpur'',
      state = ''Maharashtra'', pincode = ''440001'', area = ''Civil Lines''\<rparr>,
    \<lparr>ip = ''14.102.152.'', isp = ''BSNL Maharashtra'', city = ''Nashik'',
      state = ''Maharashtra'', pincode = ''422001'', area = ''College Road''\<rparr>,
    \<lparr>ip = ''49.14.89.'', isp = ''Vi (Vodafone Idea)'', city = ''Aurangabad'',
      state = ''Maharashtra'', pincode = ''431001'', area = ''Cidco''\<rparr>,
    \<lparr>ip = ''14.139.56.'', isp = ''Bharti Airtel Ltd'', city = ''New Delhi'',
      state = ''Delhi'', pincode = ''110001'', area = ''Connaught Place''\<rparr>,
    \<lparr>ip = ''115.242.174.'', isp = ''Vi (Vodafone Idea)'', city = ''New Delhi'',
      state = ''Delhi'', pincode = ''110021'', area = ''Lajpat Nagar''\<rparr>,
    \<lparr>ip = ''182.71.146.'', isp = ''Excitel Broadband'', city = ''Gurgaon'',
      state = ''Haryana'', pincode = ''122001'', area = ''DLF Phase 1''\<rparr>,
    \<lparr>ip = ''103.195.185.'', isp = ''D-VoiS Broadband'', city = ''Noida'',
      state = ''Uttar Pradesh'', pincode = ''201301'', area = ''Sector 62''\<rparr>,
    \<lparr>ip = ''157.119.188.'', isp = ''Connect Broadband'', city = ''Faridabad'',
      state = ''Haryana'', pincode = ''121001'', area = ''Sector 15''\<rparr>,
    \<lparr>ip = ''122.180.155.'', isp = ''Jio Fiber'', city = ''Ghaziabad'',
      state = ''Uttar Pradesh'', pincode = ''201001'', area = ''Raj Nagar''\<rparr>,
    \<lparr>ip = ''27.109.13.'', isp = ''GTPL Hathway'', city = ''Delhi'',
      state = ''Delhi'', pincode = ''110092'', area = ''Dwarka''\<rparr>,
    \<lparr>ip = ''152.58.96.'', isp = ''BSNL Karnataka'', city = ''Bangalore'',
      state = ''Karnataka'', pincode = ''560001'', area = ''MG Road''\<rparr>,
    \<lparr>ip = ''122.161.49.'', isp = ''ACT Fibernet'', city = ''Bangalore'',
      state = ''Karnataka'', pincode = ''560025'', area = ''Koramangala''\<rparr>,
    \<lparr>ip = ''103.76.253.'', isp = ''Atria Convergence Technologies'', city = ''Mysore'',
      state = ''Karnataka'', pincode = ''570001'', area = ''Sayyaji Rao Road''\<rparr>,
    \<lparr>ip = ''45.118.132.'', isp = ''Tata Play Fiber'', city = ''Mangalore'',
      state = ''Karnataka'', pincode = ''575001'', area = ''Hampankatta''\<rparr>,
    \<lparr>ip = ''103.99.177.'', isp = ''Bharti Airtel Fiber'', city = ''Hubli'',
      state = ''Karnataka'', pincode = ''580020'', area = ''Vidyanagar''\<rparr>,
    \<lparr>ip = ''49.43.84.'', isp = ''Bharti Airtel Ltd'', city = ''Chennai'',
      state = ''Tamil Nadu'', pincode = ''600001'', area = ''T. Nagar''\<rparr>,
    \<lparr>ip = ''103.195.185.'', isp = ''Siti Cable Network'', city = ''Chennai'',
      state = ''Tamil Nadu'', pincode = ''600034'', area = ''Adyar''\<rparr>,
    \<lparr>ip = ''45.248.77.'', isp = ''Railtel Corporation of India'', city = ''Coimbatore'',
      state = ''Tamil Nadu'', pincode = ''641001'', area = ''RS Puram''\<rparr>,
    \<lparr>ip = ''117.241.35.'', isp = ''BSNL Tamil Nadu'', city = ''Madurai'',
      state = ''Tamil Nadu'', pincode = ''625001'', area = ''Anna Nagar''\<rparr>,
    \<lparr>ip = ''14.142.112.'', isp = ''Jio Fiber'', city = ''Salem'',
      state = ''Tamil Nadu'', pincode = ''636001'', area = ''Fairlands''\<rparr>,
    \<lparr>ip = ''115.242.174.'', isp = ''Vi (Vodafone Idea)'', city = ''Hyderabad'',
      state = ''Telangana'', pincode = ''500001'', area = ''Abids''\<rparr>,
    \<lparr>ip = ''203.192.228.'', isp = ''GTPL Hathway Ltd'', city = ''Hyderabad'',
      state = ''Telangana'', pincode = ''500081'', area = ''Gachibowli''\<rparr>,
    \<lparr>ip = ''117.239.195.'', isp = ''Reliance Jio Infocomm'', city = ''Visakhapatnam'',
      state = ''Andhra Pradesh'', pincode = ''530001'', area = ''Dwaraka Nagar''\<rparr>,
    \<lparr>ip = ''27.5.102.'', isp = ''Airtel Fiber'', city = ''Vijayawada'',
      state = ''Andhra Pradesh'', pincode = ''520001'', area = ''Governorpet''\<rparr>,
    \<lparr>ip = ''122.161.49.'', isp = ''Alliance Broadband Services'', city = ''Kolkata'',
      state = ''West Bengal'', pincode = ''700001'', area = ''Park Street''\<rparr>,
    \<lparr>ip = ''103.76.253.'', isp = ''Wishnet Pvt Ltd'', city = ''Kolkata'',
      state = ''West Bengal'', pincode = ''700091'', area = ''Salt Lake''\<rparr>,
    \<lparr>ip = ''157.119.188.'', isp = ''Cal Broadband Networks'', city = ''Durgapur'',
      state = ''West Bengal'', pincode = ''713201'', area = ''City Center''\<rparr>,
    \<lparr>ip = ''182.74.200.'', isp = ''BSNL West Bengal'', city = ''Siliguri'',
      state = ''West Bengal'', pincode = ''734001'', area = ''Hill Cart Road''\<rparr>,
    \<lparr>ip = ''49.43.84.'', isp = ''Tikona Digital Networks'', city = ''Ahmedabad'',
      state = ''Gujarat'', pincode = ''380001'', area = ''Navrangpura''\<rparr>,
    \<lparr>ip = ''103.21.58.'', isp = ''Gujarat Telelink Pvt Ltd'', city = ''Surat'',
      state = ''Gujarat'', pincode = ''395001'', area = ''Nanpura''\<rparr>,
    \<lparr>ip = ''203.122.58.'', isp = ''Bharti Airtel Ltd'', city = ''Vadodara'',
      state = ''Gujarat'', pincode = ''390001'', area = ''Alkapuri''\<rparr>,
    \<lparr>ip = ''115.99.248.'', isp = ''Jio Fiber'', city = ''Rajkot'',
      state = ''Gujarat'', pincode = ''360001'', area = ''Race Course''\<rparr>,
    \<lparr>ip = ''103.195.185.'', isp = ''Siti Cable Network'', city = ''Jaipur'',
      state = ''Rajasthan'', pincode = ''302001'', area = ''C Scheme''\<rparr>,
    \<lparr>ip = ''115.242.174.'', isp = ''Vi (Vodafone Idea)'', city = ''Jodhpur'',
      state = ''Rajasthan'', pincode = ''342001'', area = ''Sardarpura''\<rparr>,
    \<lparr>ip = ''27.109.14.'', isp = ''BSNL Rajasthan'', city = ''Udaipur'',
      state = ''Rajasthan'', pincode = ''313001'', area = ''Fateh Sagar''\<rparr>,
    \<lparr>ip = ''14.140.137.'', isp = ''Airtel Fiber'', city = ''Kota'',
      state = ''Rajasthan'', pincode = ''324001'', area = ''Vigyan Nagar''\<rparr>,
    \<lparr>ip = ''45.248.77.'', isp = ''Asianet Broadband'', city = ''Kochi'',
      state = ''Kerala'', pincode = ''682001'', area = ''Marine Drive''\<rparr>,
    \<lparr>ip = ''103.87.169.'', isp = ''BSNL Kerala'', city = ''Thiruvananthapuram'',
      state = ''Kerala'', pincode = ''695001'', area = ''Palayam''\<rparr>,
    \<lparr>ip = ''122.164.253.'', isp = ''Asianet Cable Vision'', city = ''Kozhikode'',
      state = ''Kerala'', pincode = ''673001'', area = ''Mavoor Road''\<rparr>,
    \<lparr>ip = ''117.241.8.'', isp = ''Jio Fiber'', city = ''Thrissur'',
      state = ''Kerala'', pincode = ''680001'', area = ''Round South''\<rparr>,
    \<lparr>ip = ''182.71.146.'', isp = ''Connect Broadband'', city = ''Ludhiana'',
      state = ''Punjab'', pincode = ''141001'', area = ''Model Town''\<rparr>,
    \<lparr>ip = ''203.109.137.'', isp = ''Netplus Broadband'', city = ''Amritsar'',
      state = ''Punjab'', pincode = ''143001'', area = ''Lawrence Road''\<rparr>,
    \<lparr>ip = ''115.186.128.'', isp = ''BSNL Punjab'', city = ''Jalandhar'',
      state = ''Punjab'', pincode = ''144001'', area = ''Civil Lines''\<rparr>,
    \<lparr>ip = ''49.15.193.'', isp = ''Airtel Broadband'', city = ''Patiala'',
      state = ''Punjab'', pincode = ''147001'', area = ''Leela Bhawan''\<rparr>,
    \<lparr>ip = ''157.119.188.'', isp = ''Alliance Broadband Services'', city = ''Bhubaneswar'',
      state = ''Odisha'', pincode = ''751001'', area = ''Saheed Nagar''\<rparr>,
    \<lparr>ip = ''103.76.253.'', isp = ''BSNL Odisha'', city = ''Cuttack'',
      state = ''Odisha'', pincode = ''753001'', area = ''Buxi Bazaar''\<rparr>,
    \<lparr>ip = ''27.109.115.'', isp = ''Jio Fiber'', city = ''Berhampur'',
      state = ''Odisha'', pincode = ''760001'', area = ''Brahmapur''\<rparr>,
    \<lparr>ip = ''203.109.137.'', isp = ''You Broadband India'', city = ''Indore'',
      state = ''Madhya Pradesh'', pincode = ''452001'', area = ''Vijay Nagar''\<rparr>,
    \<lparr>ip = ''49.43.84.'', isp = ''Bharti Airtel Ltd'', city = ''Bhopal'',
      state = ''Madhya Pradesh'', pincode = ''462001'', area = ''MP Nagar''\<rparr>,
    \<lparr>ip = ''14.140.156.'', isp = ''BSNL MP'', city = ''Jabalpur'',
      state = ''Madhya Pradesh'', pincode = ''482001'', area = ''Wright Town''\<rparr>,
    \<lparr>ip = ''115.240.113.'', isp = ''Jio Fiber'', city = ''Gwalior'',
      state = ''Madhya Pradesh'', pincode = ''474001'', area = ''Lashkar''\<rparr>,
    \<lparr>ip = ''117.239.195.'', isp = ''Reliance Jio Infocomm'', city = ''Lucknow'',
      state = ''Uttar Pradesh'', pincode = ''226001'', area = ''Hazratganj''\<rparr>,
    \<lparr>ip = ''115.242.174.'', isp = ''Vi (Vodafone Idea)'', city = ''Kanpur'',
      state = ''Uttar Pradesh'', pincode = ''208001'', area = ''The Mall''\<rparr>,
    \<lparr>ip = ''14.139.198.'', isp = ''BSNL UP West'', city = ''Agra'',
      state = ''Uttar Pradesh'', pincode = ''282001'', area = ''Sadar Bazaar''\<rparr>,
    \<lparr>ip = ''49.15.241.'', isp = ''Airtel Fiber'', city = ''Varanasi'',
      state = ''Uttar Pradesh'', pincode = ''221001'', area = ''Cantonment''\<rparr>,
    \<lparr>ip = ''182.68.144.'', isp = ''Jio Fiber'', city = ''Meerut'',
      state = ''Uttar Pradesh'', pincode = ''250001'', area = ''Sadar Bazar''\<rparr>,
    \<lparr>ip = ''152.58.96.'', isp = ''BSNL Bihar'', city = ''Patna'',
      state = ''Bihar'', pincode = ''800001'', area = ''Boring Road''\<rparr>,
    \<lparr>ip = ''103.213.241.'', isp = ''Jio Fiber'', city = ''Gaya'',
      state = ''Bihar'', pincode = ''823001'', area = ''Ramna Road''\<rparr>,
    \<lparr>ip = ''27.109.14.'', isp = ''Airtel Broadband'', city = ''Bhagalpur'',
      state = ''Bihar'', pincode = ''812001'', area = ''Sultanganj Road''\<rparr>,
    \<lparr>ip = ''45.248.77.'', isp = ''Railtel Corporation'', city = ''Guwahati'',
      state = ''Assam'', pincode = ''781001'', area = ''Fancy Bazaar''\<rparr>,
    \<lparr>ip = ''103.89.136.'', isp = ''BSNL Assam'', city = ''Dibrugarh'',
      state = ''Assam'', pincode = ''786001'', area = ''Graham Bazaar''\<rparr>,
    \<lparr>ip = ''14.142.128.'', isp = ''Jio Fiber'', city = ''Silchar'',
      state = ''Assam'', pincode = ''788001'', area = ''Rangirkhari''\<rparr>,
    \<lparr>ip = ''115.242.174.'', isp = ''Vi (Vodafone Idea)'', city = ''Ranchi'',
      state = ''Jharkhand'', pincode = ''834001'', area = ''Main Road''\<rparr>,
    \<lparr>ip = ''122.252.252.'', isp = ''BSNL Jharkhand'', city = ''Jamshedpur'',
      state = ''Jharkhand'', pincode = ''831001'', area = ''Bistupur''\<rparr>,
    \<lparr>ip = ''49.15.67.'', isp = ''Airtel Fiber'', city = ''Dhanbad'',
      state = ''Jharkhand'', pincode = ''826001'', area = ''Bank More''\<rparr>,
    \<lparr>ip = ''103.21.58.'', isp = ''Syscon Infoway Pvt Ltd'', city = ''Raipur'',
      state = ''Chhattisgarh'', pincode = ''492001'', area = ''Civil Lines''\<rparr>,
    \<lparr>ip = ''14.140.189.'', isp = ''BSNL Chhattisgarh'', city = ''Bhilai'',
      state = ''Chhattisgarh'', pincode = ''490001'', area = ''Sector 1''\<rparr>,
    \<lparr>ip = ''115.240.35.'', isp = ''Jio Fiber'', city = ''Bilaspur'',
      state = ''Chhattisgarh'', pincode = ''495001'', area = ''Link Road''\<rparr>,
    \<lparr>ip = ''103.21.58.'', isp = ''Syscon Infoway Pvt Ltd'', city = ''Dehradun'',
      state = ''Uttarakhand'', pincode = ''248001'', area = ''Rajpur Road''\<rparr>,
    \<lparr>ip = ''27.109.14.'', isp = ''BSNL Uttarakhand'', city = ''Haridwar'',
      state = ''Uttarakhand'', pincode = ''249401'', area = ''Railway Road''\<rparr>,
    \<lparr>ip = ''49.15.193.'', isp = ''Airtel Broadband'', city = ''Nainital'',
      state = ''Uttarakhand'', pincode = ''263001'', area = ''Mallital''\<rparr>,
    \<lparr>ip = ''115.242.174.'', isp = ''Vi (Vodafone Idea)'', city = ''Chandigarh'',
      state = ''Chandigarh'', pincode = ''160001'', area = ''Sector 17''\<rparr>,
    \<lparr>ip = ''103.89.136.'', isp = ''BSNL Himachal'', city = ''Shimla'',
      state = ''Himachal Pradesh'', pincode = ''171001'', area = ''The Mall''\<rparr>,
    \<lparr>ip = ''14.142.128.'', isp = ''Jio Fiber'', city = ''Jammu'',
      state = ''Jammu and Kashmir'', pincode = ''180001'', area = ''Gandhi Nagar''\<rparr>,
    \<lparr>ip = ''122.252.252.'', isp = ''BSNL J&K'', city = ''Srinagar'',
      state = ''Jammu and Kashmir'', pincode = ''190001'', area = ''Lal Chowk''\<rparr>,
    \<lparr>ip = ''103.213.241.'', isp = ''Jio Fiber'', city = ''Panaji'',
      state = ''Goa'', pincode = ''403001'', area = ''Miramar''\<rparr>,
    \<lparr>ip = ''27.109.115.'', isp = ''BSNL Goa'', city = ''Margao'',
      state = ''Goa'', pincode = ''403601'', area = ''Fatorda''\<rparr>,
    \<lparr>ip = ''49.15.67.'', isp = ''Airtel Fiber'', city = ''Puducherry'',
      state = ''Puducherry'', pincode = ''605001'', area = ''MG Road''\<rparr>]"

definition indianCoordinates :: "(string \<times> coords) list" where
  "indianCoordinates = [
    (''Mumbai'', \<lparr>lat = 19.0760, lng = 72.8777\<rparr>),
    (''New Delhi'', \<lparr>lat = 28.7041, lng = 77.1025\<rparr>),
    (''Bangalore'', \<lparr>lat = 12.9716, lng = 77.5946\<rparr>),
    (''Chennai'', \<lparr>lat = 13.0827, lng = 80.2707\<rparr>),
    (''Pune'', \<lparr>lat = 18.5204, lng = 73.8567\<rparr>),
    (''Hyderabad'', \<lparr>lat = 17.3850, lng = 78.4867\<rparr>),
    (''Kolkata'', \<lparr>lat = 22.5726, lng = 88.3639\<rparr>),
    (''Ahmedabad'', \<lparr>lat = 23.0225, lng = 72.5714\<rparr>),
    (''Gurgaon'', \<lparr>lat = 28.4595, lng = 77.0266\<rparr>),
    (''Noida'', \<lparr>lat = 28.5355, lng = 77.3910\<rparr>),
    (''Surat'', \<lparr>lat = 21.1702, lng = 72.8311\<rparr>),
    (''Jaipur'', \<lparr>lat = 26.9124, lng = 75.7873\<rparr>),
    (''Lucknow'', \<lparr>lat = 26.8467, lng = 80.9462\<rparr>),
    (''Kanpur'', \<lparr>lat = 26.4499, lng = 80.3319\<rparr>),
    (''Nagpur'', \<lparr>lat = 21.1458, lng = 79.0882\<rparr>),
    (''Indore'', \<lparr>lat = 22.7196, lng = 75.8577\<rparr>),
    (''Bhopal'', \<lparr>lat = 23.2599, lng = 77.4126\<rparr>),
    (''Visakhapatnam'', \<lparr>lat = 17.6868, lng = 83.2185\<rparr>),
    (''Patna'', \<lparr>lat = 25.5941, lng = 85.1376\<rparr>),
    (''Vadodara'', \<lparr>lat = 22.3072, lng = 73.1812\<rparr>),
    (''Ludhiana'', \<lparr>lat = 30.9009, lng = 75.8573\<rparr>),
    (''Agra'', \<lparr>lat = 27.1767, lng = 78.0081\<rparr>),
    (''Nashik'', \<lparr>lat = 19.9975, lng = 73.7898\<rparr>),
    (''Faridabad'', \<lparr>lat = 28.4089, lng = 77.3178\<rparr>),
    (''Meerut'', \<lparr>lat = 28.9845, lng = 77.7064\<rparr>),
    (''Rajkot'', \<lparr>lat = 22.3039, lng = 70.8022\<rparr>),
    (''Kalyan-Dombivali'', \<lparr>lat = 19.2403, lng = 73.1305\<rparr>),
    (''Vasai-Virar'', \<lparr>lat = 19.4914, lng = 72.8054\<rparr>),
    (''Varanasi'', \<lparr>lat = 25.3176, lng = 82.9739\<rparr>),
    (''Srinagar'', \<lparr>lat = 34.0837, lng = 74.7973\<rparr>),
    (''Aurangabad'', \<lparr>lat = 19.8762, lng = 75.3433\<rparr>),
    (''Dhanbad'', \<lparr>lat = 23.7957, lng = 86.4304\<rparr>),
    (''Amritsar'', \<lparr>lat = 31.6340, lng = 74.8723\<rparr>),
    (''Navi Mumbai'', \<lparr>lat = 19.0330, lng = 73.0297\<rparr>),
    (''Allahabad'', \<lparr>lat = 25.4358, lng = 81.8463\<rparr>),
    (''Ranchi'', \<lparr>lat = 23.3441, lng = 85.3096\<rparr>),
    (''Howrah'', \<lparr>lat = 22.5958, lng = 88.2636\<rparr>),
    (''Coimbatore'', \<lparr>lat = 11.0168, lng = 76.9558\<rparr>),
    (''Jabalpur'', \<lparr>lat = 23.1815, lng = 79.9864\<rparr>),
    (''Gwalior'', \<lparr>lat = 26.2183, lng = 78.1828\<rparr>),
    (''Vijayawada'', \<lparr>lat = 16.5062, lng = 80.6480\<rparr>),
    (''Jodhpur'', \<lparr>lat = 26.2389, lng = 73.0243\<rparr>),
    (''Madurai'', \<lparr>lat = 9.9252, lng = 78.1198\<rparr>),
    (''Raipur'', \<lparr>lat = 21.2514, lng = 81.6296\<rparr>),
    (''Kota'', \<lparr>lat = 25.2138, lng = 75.8648\<rparr>),
    (''Chandigarh'', \<lparr>lat = 30.7333, lng = 76.7794\<rparr>),
    (''Guwahati'', \<lparr>lat = 26.1445, lng = 91.7362\<rparr>),
    (''Solapur'', \<lparr>lat = 17.6599, lng = 75.9064\<rparr>),
    (''Hubli'', \<lparr>lat = 15.3647, lng = 75.1240\<rparr>),
    (''Bareilly'', \<lparr>lat = 28.3670, lng = 79.4304\<rparr>),
    (''Moradabad'', \<lparr>lat = 28.8386, lng = 78.7733\<rparr>),
    (''Mysore'', \<lparr>lat = 12.2958, lng = 76.6394\<rparr>),
    (''Gurgaon'', \<lparr>lat = 28.4595, lng = 77.0266\<rparr>),
    (''Aligarh'', \<lparr>lat = 27.8974, lng = 78.0880\<rparr>),
    (''Jalandhar'', \<lparr>lat = 31.3260, lng = 75.5762\<rparr>),
    (''Tiruchirappalli'', \<lparr>lat = 10.7905, lng = 78.7047\<rparr>),
    (''Bhubaneswar'', \<lparr>lat = 20.2961, lng = 85.8245\<rparr>),
    (''Salem'', \<lparr>lat = 11.6643, lng = 78.1460\<rparr>),
    (''Mira-Bhayandar'', \<lparr>lat = 19.2952, lng = 72.8544\<rparr>),
    (''Warangal'', \<lparr>lat = 17.9689, lng = 79.5941\<rparr>),
    (''Thiruvananthapuram'', \<lparr>lat = 8.5241, lng = 76.9366\<rparr>),
    (''Guntur'', \<lparr>lat = 16.3067, lng = 80.4365\<rparr>),
    (''Bhiwandi'', \<lparr>lat = 19.3002, lng = 73.0637\<rparr>),
    (''Saharanpur'', \<lparr>lat = 29.9680, lng = 77.5552\<rparr>),
    (''Gorakhpur'', \<lparr>lat = 26.7606, lng = 83.3732\<rparr>),
    (''Bikaner'', \<lparr>lat = 28.0229, lng = 73.3119\<rparr>),
    (''Amravati'', \<lparr>lat = 20.9374, lng = 77.7796\<rparr>),
    (''Noida'', \<lparr>lat = 28.5355, lng = 77.3910\<rparr>),
    (''Jamshedpur'', \<lparr>lat = 22.8046, lng = 86.2029\<rparr>),
    (''Bhilai Nagar'', \<lparr>lat = 21.1938, lng = 81.3509\<rparr>),
    (''Cuttack'', \<lparr>lat = 20.4625, lng = 85.8828\<rparr>),
    (''Firozabad'', \<lparr>lat = 27.1592, lng = 78.3957\<rparr>),
    (''Kochi'', \<lparr>lat = 9.9312, lng = 76.2673\<rparr>),
    (''Bhavnagar'', \<lparr>lat = 21.7645, lng = 72.1519\<rparr>),
    (''Dehradun'', \<lparr>lat = 30.3165, lng = 78.0322\<rparr>),
    (''Durgapur'', \<lparr>lat = 23.4803, lng = 87.3119\<rparr>),
    (''Asansol'', \<lparr>lat = 23.6739, lng = 86.9924\<rparr>),
    (''Nanded'', \<lparr>lat = 19.1383, lng = 77.2975\<rparr>),
    (''Kolhapur'', \<lparr>lat = 16.7050, lng = 74.2433\<rparr>),
    (''Ajmer'', \<lparr>lat = 26.4499, lng = 74.6399\<rparr>),
    (''Akola'', \<lparr>lat = 20.7002, lng = 77.0082\<rparr>),
    (''Gulbarga'', \<lparr>lat = 17.3297, lng = 76.8343\<rparr>),
    (''Jamnagar'', \<lparr>lat = 22.4707, lng = 70.0577\<rparr>),
    (''Ujjain'', \<lparr>lat = 23.1765, lng = 75.7885\<rparr>),
    (''Loni'', \<lparr>lat = 28.7333, lng = 77.2833\<rparr>),
    (''Siliguri'', \<lparr>lat = 26.7271, lng = 88.3953\<rparr>),
    (''Jhansi'', \<lparr>lat = 25.4484, lng = 78.5685\<rparr>),
    (''Ulhasnagar'', \<lparr>lat = 19.2183, lng = 73.1535\<rparr>),
    (''Jammu'', \<lparr>lat = 32.7266, lng = 74.8570\<rparr>),
    (''Sangli-Miraj'', \<lparr>lat = 16.8524, lng = 74.5815\<rparr>),
    (''Mangalore'', \<lparr>lat = 12.9141, lng = 74.8560\<rparr>),
    (''Erode'', \<lparr>lat = 11.3410, lng = 77.7172\<rparr>),
    (''Belgaum'', \<lparr>lat = 15.8497, lng = 74.4977\<rparr>),
    (''Ambattur'', \<lparr>lat = 13.1143, lng = 80.1548\<rparr>),
    (''Tirunelveli'', \<lparr>lat = 8.7139, lng = 77.7567\<rparr>),
    (''Malegaon'', \<lparr>lat = 20.5579, lng = 74.5287\<rparr>),
    (''Gaya'', \<lparr>lat = 24.7914, lng = 85.0002\<rparr>),
    (''Jalgaon'', \<lparr>lat = 21.0077, lng = 75.5626\<rparr>),
    (''Udaipur'', \<lparr>lat = 24.5854, lng = 73.7125\<rparr>),
    (''Maheshtala'', \<lparr>lat = 22.4983, lng = 88.2483\<rparr>)]"

text \<open>
  \<^verbatim>\<open>indianCoordinates[cityName]\<close>. The table is an object literal: where a key is
  written twice (Gurgaon, Noida) the later entry is the property's value, so the lookup
  reads the list from its end.
\<close>

definition canonicalCoords :: "string \<Rightarrow> coords option" where
  "canonicalCoords cityName = map_of (rev indianCoordinates) cityName"

text \<open>
  \<^verbatim>\<open>const coords = indianCoordinates[cityName] || indianCoordinates['Mumbai']\<close>, then
  one draw per axis. Reading a field of \<^verbatim>\<open>undefined\<close> throws; the model returns \<open>None\<close>.
\<close>

definition coordsOrMumbai :: "string \<Rightarrow> coords option" where
  "coordsOrMumbai cityName =
     (case canonicalCoords cityName of
        Some c \<Rightarrow> Some c
      | None \<Rightarrow> canonicalCoords ''Mumbai'')"

text \<open>
  JavaScript numbers are IEEE doubles. A numeric literal denotes the double nearest to
  it, and \<^verbatim>\<open>+\<close>, \<^verbatim>\<open>-\<close> and \<^verbatim>\<open>*\<close> yield the double nearest to the exact result. When the
  exact value \<open>x\<close> is zero or in the normal range of the doubles, the nearest double
  is \<open>x * (1 + e)\<close> for some \<open>e\<close> of magnitude at most 2 to the power -53. That is
  the case of every operation below: the operands are doubles between -1 and 1 or table
  entries between 8 and 98, so no result exceeds 200, and a difference of two doubles
  of magnitude at most one, or its product with 0.01, is zero or far above the
  subnormal range. The model takes these relative errors as arguments, like the draws:
  a function of the model is the source function for one outcome of its draws and of
  the rounding of its operations.
\<close>

definition unitRoundoff :: real where
  "unitRoundoff = 1 / 2 ^ 53"

definition rounded :: "real \<Rightarrow> real \<Rightarrow> real" where
  "rounded e x = x * (1 + e)"

text \<open>
  The roundings in \<^verbatim>\<open>coords.lat + (Math.random() - 0.5) * 0.01\<close>: of the table's literal,
  of the difference (\<^verbatim>\<open>0.5\<close> is a double), of the literal \<^verbatim>\<open>0.01\<close>, of the product and of
  the sum.
\<close>

record rounding =
  e_entry :: real
  e_sub :: real
  e_const :: real
  e_mul :: real
  e_add :: real

definition rounding_ok :: "rounding \<Rightarrow> bool" where
  "rounding_ok \<rho> =
     (\<bar>e_entry \<rho>\<bar> \<le> unitRoundoff \<and> \<bar>e_sub \<rho>\<bar> \<le> unitRoundoff \<and>
      \<bar>e_const \<rho>\<bar> \<le> unitRoundoff \<and> \<bar>e_mul \<rho>\<bar> \<le> unitRoundoff \<and>
      \<bar>e_add \<rho>\<bar> \<le> unitRoundoff)"

definition noRounding :: rounding where
  "noRounding = \<lparr>e_entry = 0, e_sub = 0, e_const = 0, e_mul = 0, e_add = 0\<rparr>"

definition jitter :: "real \<Rightarrow> real \<Rightarrow> rounding \<Rightarrow> real" where
  "jitter x r \<rho> =
     rounded (e_add \<rho>)
       (rounded (e_entry \<rho>) x +
        rounded (e_mul \<rho>) (rounded (e_sub \<rho>) (r - 0.5) * rounded (e_const \<rho>) 0.01))"

definition getRandomCoordinatesForCity ::
  "string \<Rightarrow> real \<Rightarrow> real \<Rightarrow> rounding \<Rightarrow> rounding \<Rightarrow> coords option" where
  "getRandomCoordinatesForCity cityName r1 r2 \<rho>1 \<rho>2 =
     (case coordsOrMumbai cityName of
        None \<Rightarrow> None
      | Some c \<Rightarrow> Some \<lparr>lat = jitter (lat c) r1 \<rho>1, lng = jitter (lng c) r2 \<rho>2\<rparr>)"

text \<open>
  The object \<^verbatim>\<open>generateIndianIPData\<close> returns. The source joins the record's prefix and
  the last octet into one string (\<^verbatim>\<open>ipData.ip + lastOctet\<close>); the model keeps the record
  (field \<open>entry\<close>, whose \<open>ip\<close> is the prefix) and the octet side by side. The source
  calls \<^verbatim>\<open>getRandomCoordinatesForCity\<close> twice and keeps the latitude of the first call and
  the longitude of the second, so four numbers are drawn for the two coordinates.
\<close>

record ipData =
  entry :: ip_entry
  lastOctet :: nat
  country :: string
  countryCode :: string
  latitude :: real
  longitude :: real

record ip_draws =
  d_record :: real
  d_octet :: real
  d_lat1 :: real
  d_lng1 :: real
  d_lat2 :: real
  d_lng2 :: real
  d_round_lat1 :: rounding
  d_round_lng1 :: rounding
  d_round_lat2 :: rounding
  d_round_lng2 :: rounding

definition ip_draws_ok :: "ip_draws \<Rightarrow> bool" where
  "ip_draws_ok d =
     (unit_draw (d_record d) \<and> unit_draw (d_octet d) \<and> unit_draw (d_lat1 d) \<and>
      unit_draw (d_lng1 d) \<and> unit_draw (d_lat2 d) \<and> unit_draw (d_lng2 d))"

definition ip_rounding_ok :: "ip_draws \<Rightarrow> bool" where
  "ip_rounding_ok d =
     (rounding_ok (d_round_lat1 d) \<and> rounding_ok (d_round_lng1 d) \<and>
      rounding_ok (d_round_lat2 d) \<and> rounding_ok (d_round_lng2 d))"

definition generateIndianIPData :: "ip_draws \<Rightarrow> ipData option" where
  "generateIndianIPData d =
     (case getRandomElement indianIPData (d_record d) of
        None \<Rightarrow> None
      | Some e \<Rightarrow>
          (case getRandomCoordinatesForCity (city e) (d_lat1 d) (d_lng1 d)
                  (d_round_lat1 d) (d_round_lng1 d) of
             None \<Rightarrow> None
           | Some c1 \<Rightarrow>
               (case getRandomCoordinatesForCity (city e) (d_lat2 d) (d_lng2 d)
                       (d_round_lat2 d) (d_round_lng2 d) of
                  None \<Rightarrow> None
                | Some c2 \<Rightarrow>
                    Some \<lparr>entry = e, lastOctet = nat \<lfloor>d_octet d * 254\<rfloor> + 1,
                          country = ''India'', countryCode = ''IN'',
                          latitude = lat c1, longitude = lng c2\<rparr>)))"

text \<open>
  The part of \<^verbatim>\<open>setupPageFingerprint\<close> that builds the profile's network identity:
  the IP record, the tier of its city and a connection for that tier. The user agent,
  resolution, time zone and language are separate draws from their own tables and take
  no part in what follows; the calls that configure the page are the browser's.
\<close>

record fingerprint =
  fp_ipData :: ipData
  fp_connectionInfo :: connection
  fp_locationTier :: string

definition setupPageFingerprint :: "ip_draws \<Rightarrow> real \<Rightarrow> fingerprint option" where
  "setupPageFingerprint d r =
     (case generateIndianIPData d of
        None \<Rightarrow> None
      | Some ipd \<Rightarrow>
          (let locationTier = getLocationTier (city (entry ipd))
           in case getRandomConnectionType locationTier r of
                None \<Rightarrow> None
              | Some connectionInfo \<Rightarrow>
                  Some \<lparr>fp_ipData = ipd, fp_connectionInfo = connectionInfo,
                        fp_locationTier = locationTier\<rparr>))"

subsection \<open>The jitter property, and draws used as examples\<close>

text \<open>
  The property that coordinates stay near the profile's own city, read with the
  coordinate table as the only source of a city's canonical point: a city without an
  entry has no canonical point to be near. The radius is the half-width of the jitter
  on each axis.
\<close>

definition jitterRadius :: real where
  "jitterRadius = 0.005"

text \<open>What the rounding of the five operations may add to the distance, at most.\<close>

definition roundingAllowance :: real where
  "roundingAllowance = 1 / 10 ^ 12"

definition withinJitterOfOwnCity :: "ipData \<Rightarrow> bool" where
  "withinJitterOfOwnCity p =
     (case canonicalCoords (city (entry p)) of
        None \<Rightarrow> False
      | Some c \<Rightarrow> \<bar>latitude p - lat c\<bar> \<le> jitterRadius \<and> \<bar>longitude p - lng c\<bar> \<le> jitterRadius)"

definition shimla_draws :: ip_draws where
  "shimla_draws = \<lparr>d_record = 153 / 164, d_octet = 0, d_lat1 = 1 / 2, d_lng1 = 1 / 2,
                     d_lat2 = 1 / 2, d_lng2 = 1 / 2,
                     d_round_lat1 = noRounding, d_round_lng1 = noRounding,
                     d_round_lat2 = noRounding, d_round_lng2 = noRounding\<rparr>"

definition mumbai_draws :: ip_draws where
  "mumbai_draws = \<lparr>d_record = 0, d_octet = 0, d_lat1 = 0, d_lng1 = 0, d_lat2 = 0, d_lng2 = 0,
                     d_round_lat1 = noRounding, d_round_lng1 = noRounding,
                     d_round_lat2 = noRounding, d_round_lng2 = noRounding\<rparr>"

section \<open>Telemetry\<close>

text \<open>
  The counter, the in-memory record list and the two CSV writers. Both variants of the
  script keep the same global state and the same \<^verbatim>\<open>addClickRecord\<close>,
  \<^verbatim>\<open>updateCSVFile\<close> and \<^verbatim>\<open>generateCSVReport\<close>; they differ in
  \<^verbatim>\<open>incrementClickCounter\<close>.

  Of the fields of a record the model keeps the tab number and the URL; the account
  fields and the time stamps are copied through by the script and read by nothing.
\<close>

record clickData =
  tabNumber :: nat
  url :: string

record recordWithMeta = clickData +
  clickNumber :: nat

datatype csv_line = Header | Row recordWithMeta

datatype log_line =
    CSV_ERROR_update
  | CSV_ERROR_report
  | ERROR_failed nat
  | SYSTEM_terminated nat

text \<open>
  \<open>dataCsv\<close> is the file \<^verbatim>\<open>data.csv\<close>, \<open>None\<close> while it does not exist; \<open>reports\<close>
  are the report files written so far, each with the records it lists; \<open>console\<close>
  keeps the error lines the script prints.
\<close>

record telemetry =
  globalClickCounter :: nat
  clickReportData :: "recordWithMeta list"
  dataCsv :: "csv_line list option"
  reports :: "recordWithMeta list list"
  console :: "log_line list"

definition initialTelemetry :: telemetry where
  "initialTelemetry =
     \<lparr>globalClickCounter = 0, clickReportData = [], dataCsv = None, reports = [], console = []\<rparr>"

text \<open>
  An \<^verbatim>\<open>async\<close> function runs without interruption up to its next \<^verbatim>\<open>await\<close>; there the
  event loop may run other tasks, and the function goes on when the awaited operation
  has settled. The model cuts each \<^verbatim>\<open>async\<close> function at its awaits: one definition
  per stretch of code between two awaits, taking the outcome of the awaited operation.
\<close>

datatype outcome = Resolved | Rejected

text \<open>Where a call of \<^verbatim>\<open>incrementClickCounter\<close> can be suspended.\<close>

datatype increment_pc =
    Appending "csv_line list"
  | Reporting "recordWithMeta list"
  | Pausing

text \<open>What a stretch of \<^verbatim>\<open>incrementClickCounter\<close> ends with.\<close>

datatype increment_result =
    Suspended increment_pc
  | ReturnedValue bool
  | Thrown

text \<open>
  \<^verbatim>\<open>addClickRecord\<close> up to its await, with \<^verbatim>\<open>updateCSVFile\<close> up to its
  \<^verbatim>\<open>fs.promises.appendFile\<close>: the record takes the counter's current value as its
  number and is pushed; the text to append starts with the header row when the file
  does not exist at that moment.
\<close>

definition addClickRecord :: "clickData \<Rightarrow> telemetry \<Rightarrow> csv_line list \<times> telemetry" where
  "addClickRecord clickData t =
     (let recordWithMeta = \<lparr>tabNumber = tabNumber clickData, url = url clickData,
                             clickNumber = globalClickCounter t\<rparr>;
          t' = t\<lparr>clickReportData := clickReportData t @ [recordWithMeta]\<rparr>;
          csvContent = (if dataCsv t' = None then [Header] else []) @ [Row recordWithMeta]
      in (csvContent, t'))"

text \<open>
  The rest of \<^verbatim>\<open>addClickRecord\<close>, once \<^verbatim>\<open>appendFile\<close> has settled: the \<^verbatim>\<open>catch\<close>
  prints the error and the function returns normally either way.
\<close>

definition addClickRecord_settled :: "outcome \<Rightarrow> csv_line list \<Rightarrow> telemetry \<Rightarrow> telemetry" where
  "addClickRecord_settled out csvContent t =
     (case out of
        Resolved \<Rightarrow>
          t\<lparr>dataCsv := Some ((case dataCsv t of None \<Rightarrow> [] | Some ls \<Rightarrow> ls) @ csvContent)\<rparr>
      | Rejected \<Rightarrow> t\<lparr>console := console t @ [CSV_ERROR_update]\<rparr>)"

text \<open>
  \<^verbatim>\<open>generateCSVReport\<close>: the text is built from the records present when it is called;
  when \<^verbatim>\<open>writeFile\<close> rejects, the \<^verbatim>\<open>catch\<close> prints the error and throws it again.
\<close>

definition generateCSVReport :: "telemetry \<Rightarrow> recordWithMeta list" where
  "generateCSVReport t = clickReportData t"

definition generateCSVReport_settled ::
  "outcome \<Rightarrow> recordWithMeta list \<Rightarrow> telemetry \<Rightarrow> bool \<times> telemetry" where
  "generateCSVReport_settled out csvContent t =
     (case out of
        Resolved \<Rightarrow> (True, t\<lparr>reports := reports t @ [csvContent]\<rparr>)
      | Rejected \<Rightarrow> (False, t\<lparr>console := console t @ [CSV_ERROR_report]\<rparr>))"

subsection \<open>\<^verbatim>\<open>incrementClickCounter\<close> of \<^verbatim>\<open>automated.js\<close>\<close>

text \<open>
  From the call to the first await: the counter is incremented and \<^verbatim>\<open>addClickRecord\<close>
  runs up to its await. The same text opens the function in the bounded variant.
\<close>

definition incrementClickCounter :: "clickData \<Rightarrow> telemetry \<Rightarrow> increment_result \<times> telemetry" where
  "incrementClickCounter clickData t =
     (case addClickRecord clickData (t\<lparr>globalClickCounter := globalClickCounter t + 1\<rparr>) of
        (csvContent, t') \<Rightarrow> (Suspended (Appending csvContent), t'))"

text \<open>After the report, or when none was due: the pause after every tenth click.\<close>

definition incrementClickCounter_pause :: "telemetry \<Rightarrow> increment_result \<times> telemetry" where
  "incrementClickCounter_pause t =
     (if globalClickCounter t mod 10 = 0 then (Suspended Pausing, t) else (ReturnedValue True, t))"

fun incrementClickCounter_resume ::
  "outcome \<Rightarrow> increment_pc \<Rightarrow> telemetry \<Rightarrow> increment_result \<times> telemetry" where
  "incrementClickCounter_resume out (Appending csvContent) t =
     (let t' = addClickRecord_settled out csvContent t
      in if globalClickCounter t' mod 25 = 0
         then (Suspended (Reporting (generateCSVReport t')), t')
         else incrementClickCounter_pause t')"
| "incrementClickCounter_resume out (Reporting csvContent) t =
     (case generateCSVReport_settled out csvContent t of
        (True, t') \<Rightarrow> incrementClickCounter_pause t'
      | (False, t') \<Rightarrow> (Thrown, t'))"
| "incrementClickCounter_resume out Pausing t = (ReturnedValue True, t)"

subsection \<open>\<^verbatim>\<open>incrementClickCounter\<close> of the bounded variant\<close>

text \<open>
  The bounded variant opens as above; after the record is added it compares the
  counter with \<^verbatim>\<open>MAX_CLICKS\<close> (100 in the script, a parameter here), writes the final
  report when the limit is reached and returns false then.
\<close>

fun incrementClickCounter_bounded_resume ::
  "nat \<Rightarrow> outcome \<Rightarrow> increment_pc \<Rightarrow> telemetry \<Rightarrow> increment_result \<times> telemetry" where
  "incrementClickCounter_bounded_resume MAX_CLICKS out (Appending csvContent) t =
     (let t' = addClickRecord_settled out csvContent t
      in if globalClickCounter t' \<ge> MAX_CLICKS
         then (Suspended (Reporting (generateCSVReport t')), t')
         else (ReturnedValue True, t'))"
| "incrementClickCounter_bounded_resume MAX_CLICKS out (Reporting csvContent) t =
     (case generateCSVReport_settled out csvContent t of
        (True, t') \<Rightarrow> (ReturnedValue False, t')
      | (False, t') \<Rightarrow> (Thrown, t'))"
| "incrementClickCounter_bounded_resume MAX_CLICKS out Pausing t = (ReturnedValue True, t)"

subsection \<open>Concurrent calls of \<^verbatim>\<open>incrementClickCounter\<close>\<close>

text \<open>
  Several calls in flight at once, as when several workers complete while others are
  suspended in the function. A schedule is a list of events; an event names the call
  that runs next and the outcome of the operation it was waiting for (the outcome is
  not read when the call has not started yet). The event of a call that has finished
  is not enabled.
\<close>

datatype call = NotCalled clickData | Running increment_pc | Finished "bool option"

fun finishCall :: "increment_result \<Rightarrow> call" where
  "finishCall (Suspended p) = Running p"
| "finishCall (ReturnedValue b) = Finished (Some b)"
| "finishCall Thrown = Finished None"

text \<open>
  \<open>resume\<close> is the continuation of the variant under test:
  \<open>incrementClickCounter_resume\<close> or \<open>incrementClickCounter_bounded_resume n\<close>.
\<close>

fun callStep ::
  "(outcome \<Rightarrow> increment_pc \<Rightarrow> telemetry \<Rightarrow> increment_result \<times> telemetry) \<Rightarrow>
   outcome \<Rightarrow> call \<Rightarrow> telemetry \<Rightarrow> (call \<times> telemetry) option" where
  "callStep resume out (NotCalled clickData) t =
     (case incrementClickCounter clickData t of (r, t') \<Rightarrow> Some (finishCall r, t'))"
| "callStep resume out (Running p) t =
     (case resume out p t of (r, t') \<Rightarrow> Some (finishCall r, t'))"
| "callStep resume out (Finished v) t = None"

fun runCalls ::
  "(outcome \<Rightarrow> increment_pc \<Rightarrow> telemetry \<Rightarrow> increment_result \<times> telemetry) \<Rightarrow>
   (nat \<times> outcome) list \<Rightarrow> call list \<times> telemetry \<Rightarrow> (call list \<times> telemetry) option" where
  "runCalls resume [] s = Some s"
| "runCalls resume ((k, out) # evs) (calls, t) =
     (if k < length calls
      then (case callStep resume out (calls ! k) t of
              None \<Rightarrow> None
            | Some (c', t') \<Rightarrow> runCalls resume evs (calls[k := c'], t'))
      else None)"

fun started :: "call \<Rightarrow> bool" where
  "started (NotCalled clickData) = False"
| "started (Running p) = True"
| "started (Finished v) = True"

fun finished :: "call \<Rightarrow> bool" where
  "finished (Finished v) = True"
| "finished _ = False"

section \<open>The session worker\<close>

text \<open>
  \<^verbatim>\<open>createClickWorker\<close> (\<^verbatim>\<open>automated.js\<close>) and \<^verbatim>\<open>createTabWorker\<close> (the bounded variant),
  cut at their awaits. A worker is where it is suspended (\<open>w_pc\<close>) and its local
  variables: \<^verbatim>\<open>browser\<close> and \<^verbatim>\<open>page\<close>, \<^verbatim>\<open>null\<close> until acquired, and whether it has run
  the statement that counts it as completed (\<^verbatim>\<open>completedClicks++\<close>,
  \<^verbatim>\<open>completedTabs++\<close>).

  Consecutive awaits between which the worker touches neither the shared state nor its
  handles are one suspension point: \<open>Inspecting\<close> is the settle delay with
  \<^verbatim>\<open>page.title()\<close> and \<^verbatim>\<open>page.url()\<close>, and \<open>Interacting\<close> is the whole inner \<^verbatim>\<open>try\<close> block,
  whose \<^verbatim>\<open>catch\<close> swallows every exception raised inside it, so that the worker goes on
  in the same way whatever the outcome.
\<close>

datatype handle = NotAcquired | Open | Closed | CloseRejected

datatype worker_pc =
    Launching
  | OpeningPage
  | Navigating
  | Inspecting
  | Interacting
  | Incrementing increment_pc
  | Delaying
  | ClosingPage
  | ClosingBrowser
  | Settled

record worker =
  w_pc :: worker_pc
  w_index :: nat
  w_url :: string
  w_browser :: handle
  w_page :: handle
  w_completed :: bool

text \<open>
  The worker as the call leaves it at its first await, \<^verbatim>\<open>puppeteer.launch\<close>. (The
  bounded variant first increments \<^verbatim>\<open>activeConnections\<close>, a counter that is written
  and never read.)
\<close>

definition newWorker :: "string \<Rightarrow> nat \<Rightarrow> worker" where
  "newWorker targetUrl i =
     \<lparr>w_pc = Launching, w_index = i, w_url = targetUrl, w_browser = NotAcquired,
       w_page = NotAcquired, w_completed = False\<rparr>"

text \<open>
  The \<^verbatim>\<open>finally\<close> block: \<^verbatim>\<open>if (page) await page.close().catch(() => {})\<close>, then the
  same for the browser. A rejected \<^verbatim>\<open>close\<close> is swallowed.
\<close>

definition enterFinally :: "worker \<Rightarrow> worker" where
  "enterFinally w =
     w\<lparr>w_pc := (if w_page w \<noteq> NotAcquired then ClosingPage
                else if w_browser w \<noteq> NotAcquired then ClosingBrowser
                else Settled)\<rparr>"

definition closeResult :: "outcome \<Rightarrow> handle" where
  "closeResult out = (case out of Resolved \<Rightarrow> Closed | Rejected \<Rightarrow> CloseRejected)"

definition pageClosed :: "outcome \<Rightarrow> worker \<Rightarrow> worker" where
  "pageClosed out w =
     w\<lparr>w_page := closeResult out,
       w_pc := (if w_browser w \<noteq> NotAcquired then ClosingBrowser else Settled)\<rparr>"

definition browserClosed :: "outcome \<Rightarrow> worker \<Rightarrow> worker" where
  "browserClosed out w = w\<lparr>w_browser := closeResult out, w_pc := Settled\<rparr>"

text \<open>The outer \<^verbatim>\<open>catch\<close> of \<^verbatim>\<open>createClickWorker\<close>: print the error, go to \<^verbatim>\<open>finally\<close>.\<close>

definition catchError :: "worker \<Rightarrow> telemetry \<Rightarrow> worker \<times> telemetry" where
  "catchError w t = (enterFinally w, t\<lparr>console := console t @ [ERROR_failed (w_index w + 1)]\<rparr>)"

text \<open>The record data a worker hands to \<^verbatim>\<open>incrementClickCounter\<close>.\<close>

definition clickDataOf :: "worker \<Rightarrow> clickData" where
  "clickDataOf w = \<lparr>tabNumber = w_index w + 1, url = w_url w\<rparr>"

subsection \<open>\<^verbatim>\<open>createClickWorker\<close>\<close>

text \<open>
  What follows a stretch of \<^verbatim>\<open>incrementClickCounter\<close> in the worker: still suspended
  inside it; returned, then \<^verbatim>\<open>completedClicks++\<close> and the random delay (the returned
  value is not read); or thrown, then the outer \<^verbatim>\<open>catch\<close>.
\<close>

fun afterIncrement :: "worker \<Rightarrow> increment_result \<times> telemetry \<Rightarrow> worker \<times> telemetry" where
  "afterIncrement w (Suspended p, t) = (w\<lparr>w_pc := Incrementing p\<rparr>, t)"
| "afterIncrement w (ReturnedValue b, t) = (w\<lparr>w_completed := True, w_pc := Delaying\<rparr>, t)"
| "afterIncrement w (Thrown, t) = catchError w t"

definition createClickWorker_step :: "outcome \<Rightarrow> worker \<Rightarrow> telemetry \<Rightarrow> worker \<times> telemetry" where
  "createClickWorker_step out w t =
     (case w_pc w of
        Launching \<Rightarrow>
          (case out of
             Resolved \<Rightarrow> (w\<lparr>w_browser := Open, w_pc := OpeningPage\<rparr>, t)
           | Rejected \<Rightarrow> catchError w t)
      | OpeningPage \<Rightarrow>
          (case out of
             Resolved \<Rightarrow> (w\<lparr>w_page := Open, w_pc := Navigating\<rparr>, t)
           | Rejected \<Rightarrow> catchError w t)
      | Navigating \<Rightarrow>
          (case out of
             Resolved \<Rightarrow> (w\<lparr>w_pc := Inspecting\<rparr>, t)
           | Rejected \<Rightarrow> catchError w t)
      | Inspecting \<Rightarrow>
          (case out of
             Resolved \<Rightarrow> (w\<lparr>w_pc := Interacting\<rparr>, t)
           | Rejected \<Rightarrow> catchError w t)
      | Interacting \<Rightarrow> afterIncrement w (incrementClickCounter (clickDataOf w) t)
      | Incrementing p \<Rightarrow> afterIncrement w (incrementClickCounter_resume out p t)
      | Delaying \<Rightarrow> (enterFinally w, t)
      | ClosingPage \<Rightarrow> (pageClosed out w, t)
      | ClosingBrowser \<Rightarrow> (browserClosed out w, t)
      | Settled \<Rightarrow> (w, t))"

subsection \<open>\<^verbatim>\<open>createTabWorker\<close>\<close>

text \<open>
  In the bounded variant the returned value is read: on \<^verbatim>\<open>false\<close> the worker throws
  \<^verbatim>\<open>MAX_CLICKS_REACHED\<close>, which its \<^verbatim>\<open>catch\<close> tells from other errors by the message.
  There is no delay after \<^verbatim>\<open>completedTabs++\<close>.
\<close>

fun afterIncrement_tab :: "worker \<Rightarrow> increment_result \<times> telemetry \<Rightarrow> worker \<times> telemetry" where
  "afterIncrement_tab w (Suspended p, t) = (w\<lparr>w_pc := Incrementing p\<rparr>, t)"
| "afterIncrement_tab w (ReturnedValue b, t) =
     (if b then (enterFinally (w\<lparr>w_completed := True\<rparr>), t)
      else (enterFinally w, t\<lparr>console := console t @ [SYSTEM_terminated (w_index w + 1)]\<rparr>))"
| "afterIncrement_tab w (Thrown, t) = catchError w t"

definition createTabWorker_step :: "nat \<Rightarrow> outcome \<Rightarrow> worker \<Rightarrow> telemetry \<Rightarrow> worker \<times> telemetry" where
  "createTabWorker_step MAX_CLICKS out w t =
     (case w_pc w of
        Launching \<Rightarrow>
          (case out of
             Resolved \<Rightarrow> (w\<lparr>w_browser := Open, w_pc := OpeningPage\<rparr>, t)
           | Rejected \<Rightarrow> catchError w t)
      | OpeningPage \<Rightarrow>
          (case out of
             Resolved \<Rightarrow> (w\<lparr>w_page := Open, w_pc := Navigating\<rparr>, t)
           | Rejected \<Rightarrow> catchError w t)
      | Navigating \<Rightarrow>
          (case out of
             Resolved \<Rightarrow> (w\<lparr>w_pc := Inspecting\<rparr>, t)
           | Rejected \<Rightarrow> catchError w t)
      | Inspecting \<Rightarrow>
          (case out of
             Resolved \<Rightarrow> (w\<lparr>w_pc := Interacting\<rparr>, t)
           | Rejected \<Rightarrow> catchError w t)
      | Interacting \<Rightarrow> afterIncrement_tab w (incrementClickCounter (clickDataOf w) t)
      | Incrementing p \<Rightarrow>
          afterIncrement_tab w (incrementClickCounter_bounded_resume MAX_CLICKS out p t)
      | Delaying \<Rightarrow> (enterFinally w, t)
      | ClosingPage \<Rightarrow> (pageClosed out w, t)
      | ClosingBrowser \<Rightarrow> (browserClosed out w, t)
      | Settled \<Rightarrow> (w, t))"

subsection \<open>A worker run by itself\<close>

text \<open>
  One session from launch to the end with nothing else running in between, as in
  \<^verbatim>\<open>automated.js\<close>, where every worker is awaited before the next starts. The
  environment says how each operation the worker waits for turns out.
\<close>

record session_env =
  launch :: outcome
  newPage :: outcome
  goto :: outcome
  inspect :: outcome
  interact :: outcome
  appendFile :: outcome
  writeFile :: outcome
  closePage :: outcome
  closeBrowser :: outcome

fun outcomeAt :: "session_env \<Rightarrow> worker_pc \<Rightarrow> outcome" where
  "outcomeAt env Launching = launch env"
| "outcomeAt env OpeningPage = newPage env"
| "outcomeAt env Navigating = goto env"
| "outcomeAt env Inspecting = inspect env"
| "outcomeAt env Interacting = interact env"
| "outcomeAt env (Incrementing (Appending c)) = appendFile env"
| "outcomeAt env (Incrementing (Reporting c)) = writeFile env"
| "outcomeAt env (Incrementing Pausing) = Resolved"
| "outcomeAt env Delaying = Resolved"
| "outcomeAt env ClosingPage = closePage env"
| "outcomeAt env ClosingBrowser = closeBrowser env"
| "outcomeAt env Settled = Resolved"

text \<open>How far a worker is from the end: the number of suspension points still ahead at most.\<close>

fun stepsLeft :: "worker_pc \<Rightarrow> nat" where
  "stepsLeft Launching = 11"
| "stepsLeft OpeningPage = 10"
| "stepsLeft Navigating = 9"
| "stepsLeft Inspecting = 8"
| "stepsLeft Interacting = 7"
| "stepsLeft (Incrementing (Appending c)) = 6"
| "stepsLeft (Incrementing (Reporting c)) = 5"
| "stepsLeft (Incrementing Pausing) = 4"
| "stepsLeft Delaying = 3"
| "stepsLeft ClosingPage = 2"
| "stepsLeft ClosingBrowser = 1"
| "stepsLeft Settled = 0"

function settleClickWorker :: "session_env \<Rightarrow> worker \<Rightarrow> telemetry \<Rightarrow> worker \<times> telemetry" where
  "settleClickWorker env w t =
     (if w_pc w = Settled then (w, t)
      else case createClickWorker_step (outcomeAt env (w_pc w)) w t of
             (w', t') \<Rightarrow> settleClickWorker env w' t')"
  by pat_completeness auto

function settleTabWorker ::
  "nat \<Rightarrow> session_env \<Rightarrow> worker \<Rightarrow> telemetry \<Rightarrow> worker \<times> telemetry" where
  "settleTabWorker MAX_CLICKS env w t =
     (if w_pc w = Settled then (w, t)
      else case createTabWorker_step MAX_CLICKS (outcomeAt env (w_pc w)) w t of
             (w', t') \<Rightarrow> settleTabWorker MAX_CLICKS env w' t')"
  by pat_completeness auto

text \<open>
  Both functions are total: every stretch of a worker leaves it strictly nearer the end,
  so a worker run by itself settles after at most eleven resumptions.
\<close>

lemma incrementClickCounter_Suspended:
  "\<exists>c t'. incrementClickCounter cd t = (Suspended (Appending c), t')"
  by (simp add: incrementClickCounter_def addClickRecord_def Let_def)

lemma afterIncrement_resume_decreases:
  "afterIncrement w (incrementClickCounter_resume out p t) = (w', t') \<Longrightarrow>
     stepsLeft (w_pc w') < stepsLeft (Incrementing p)"
  by (cases p)
    (auto simp: Let_def incrementClickCounter_pause_def generateCSVReport_settled_def
      catchError_def enterFinally_def split: if_splits outcome.splits)

lemma afterIncrement_tab_resume_decreases:
  "afterIncrement_tab w (incrementClickCounter_bounded_resume m out p t) = (w', t') \<Longrightarrow>
     stepsLeft (w_pc w') < stepsLeft (Incrementing p)"
  by (cases p)
    (auto simp: Let_def generateCSVReport_settled_def
      catchError_def enterFinally_def split: if_splits outcome.splits)

lemma createClickWorker_step_decreases:
  assumes "w_pc w \<noteq> Settled" and "createClickWorker_step out w t = (w', t')"
  shows "stepsLeft (w_pc w') < stepsLeft (w_pc w)"
proof (cases "w_pc w")
  case Interacting
  from incrementClickCounter_Suspended [of "clickDataOf w" t] assms(2) Interacting
  show ?thesis by (auto simp: createClickWorker_step_def)
next
  case (Incrementing p)
  with assms(2) afterIncrement_resume_decreases [of w out p t w' t']
  show ?thesis by (simp add: createClickWorker_step_def)
qed (use assms in \<open>auto simp: createClickWorker_step_def catchError_def enterFinally_def
      pageClosed_def browserClosed_def split: outcome.splits if_splits\<close>)

lemma createTabWorker_step_decreases:
  assumes "w_pc w \<noteq> Settled" and "createTabWorker_step m out w t = (w', t')"
  shows "stepsLeft (w_pc w') < stepsLeft (w_pc w)"
proof (cases "w_pc w")
  case Interacting
  from incrementClickCounter_Suspended [of "clickDataOf w" t] assms(2) Interacting
  show ?thesis by (auto simp: createTabWorker_step_def)
next
  case (Incrementing p)
  with assms(2) afterIncrement_tab_resume_decreases [of w m out p t w' t']
  show ?thesis by (simp add: createTabWorker_step_def)
qed (use assms in \<open>auto simp: createTabWorker_step_def catchError_def enterFinally_def
      pageClosed_def browserClosed_def split: outcome.splits if_splits\<close>)

lemma createClickWorker_step_measure:
  "w_pc w \<noteq> Settled \<Longrightarrow>
     (case createClickWorker_step out w t of (w', t') \<Rightarrow> stepsLeft (w_pc w')) < stepsLeft (w_pc w)"
  using createClickWorker_step_decreases by (auto split: prod.split)

lemma createTabWorker_step_measure:
  "w_pc w \<noteq> Settled \<Longrightarrow>
     (case createTabWorker_step m out w t of (w', t') \<Rightarrow> stepsLeft (w_pc w')) < stepsLeft (w_pc w)"
  using createTabWorker_step_decreases by (auto split: prod.split)

termination settleClickWorker
  by (relation "measure (\<lambda>(env, w, t). stepsLeft (w_pc w))")
    (simp_all add: createClickWorker_step_measure)

termination settleTabWorker
  by (relation "measure (\<lambda>(m, env, w, t). stepsLeft (w_pc w))")
    (simp_all add: createTabWorker_step_measure)

definition createClickWorker ::
  "session_env \<Rightarrow> string \<Rightarrow> nat \<Rightarrow> telemetry \<Rightarrow> worker \<times> telemetry" where
  "createClickWorker env targetUrl clickIndex t =
     settleClickWorker env (newWorker targetUrl clickIndex) t"

definition createTabWorker ::
  "nat \<Rightarrow> session_env \<Rightarrow> string \<Rightarrow> nat \<Rightarrow> telemetry \<Rightarrow> worker \<times> telemetry" where
  "createTabWorker MAX_CLICKS env targetUrl tabIndex t =
     settleTabWorker MAX_CLICKS env (newWorker targetUrl tabIndex) t"

text \<open>
  The operations that come before the interaction: when one of them rejects, the outer
  \<^verbatim>\<open>catch\<close> takes over and \<^verbatim>\<open>incrementClickCounter\<close> is never called.
\<close>

definition browsed :: "session_env \<Rightarrow> bool" where
  "browsed env =
     (launch env = Resolved \<and> newPage env = Resolved \<and> goto env = Resolved \<and>
      inspect env = Resolved)"

text \<open>Environments used as examples.\<close>

definition allResolved :: session_env where
  "allResolved =
     \<lparr>launch = Resolved, newPage = Resolved, goto = Resolved, inspect = Resolved,
       interact = Resolved, appendFile = Resolved, writeFile = Resolved,
       closePage = Resolved, closeBrowser = Resolved\<rparr>"

definition launchCrash :: session_env where
  "launchCrash = allResolved\<lparr>launch := Rejected\<rparr>"

definition navigationTimeout :: session_env where
  "navigationTimeout = allResolved\<lparr>goto := Rejected\<rparr>"


definition reportWriteFails :: session_env where
  "reportWriteFails = allResolved\<lparr>writeFile := Rejected\<rparr>"

text \<open>The state after 24 recorded clicks on one URL, each from a worker of its own.\<close>

definition after24Clicks :: telemetry where
  "after24Clicks =
     \<lparr>globalClickCounter = 24,
       clickReportData = map (\<lambda>k. \<lparr>tabNumber = 1, url = ''https://example.org/'', clickNumber = k\<rparr>)
                           [1..<25],
       dataCsv = Some (Header # map (\<lambda>k. Row \<lparr>tabNumber = 1, url = ''https://example.org/'',
                                               clickNumber = k\<rparr>) [1..<25]),
       reports = [], console = []\<rparr>"

section \<open>The primary interaction\<close>

text \<open>
  The part of the session worker that looks for an element to click, in both variants
  of the script (\<^verbatim>\<open>createClickWorker\<close> of \<^verbatim>\<open>automated.js\<close> and \<^verbatim>\<open>createTabWorker\<close> of the
  bounded variant). The page is a list of elements in document order. An element has a
  tag, attributes, a text, and a flag saying whether the browser can click it: on an
  element with \<open>clickable = False\<close> (a hidden one, say) \<^verbatim>\<open>element.click\<close> rejects.
  \<^verbatim>\<open>page.$$\<close> and \<^verbatim>\<open>element.evaluate\<close> are taken not to fail.
\<close>

record element =
  tagName :: string
  attrs :: "(string \<times> string) list"
  textContent :: string
  clickable :: bool

definition getAttribute :: "element \<Rightarrow> string \<Rightarrow> string option" where
  "getAttribute el name = map_of (attrs el) name"

subsection \<open>Strings\<close>

text \<open>
  \<^verbatim>\<open>String.prototype.toLowerCase\<close>, \<^verbatim>\<open>trim\<close> and \<^verbatim>\<open>includes\<close> (here \<open>includes_str\<close>),
  on ASCII text.
\<close>

definition lower_char :: "char \<Rightarrow> char" where
  "lower_char c =
     (case map_of (zip ''ABCDEFGHIJKLMNOPQRSTUVWXYZ'' ''abcdefghijklmnopqrstuvwxyz'') c of
        Some l \<Rightarrow> l
      | None \<Rightarrow> c)"

definition toLowerCase :: "string \<Rightarrow> string" where
  "toLowerCase s = map lower_char s"

definition isSpace :: "char \<Rightarrow> bool" where
  "isSpace c = (c = CHR '' '' \<or> c = CHR 0x09 \<or> c = CHR 0x0A \<or> c = CHR 0x0D)"

definition trim :: "string \<Rightarrow> string" where
  "trim s = rev (dropWhile isSpace (rev (dropWhile isSpace s)))"

fun startsWith :: "string \<Rightarrow> string \<Rightarrow> bool" where
  "startsWith s [] = True"
| "startsWith [] (c # t) = False"
| "startsWith (d # s) (c # t) = (d = c \<and> startsWith s t)"

fun includes_str :: "string \<Rightarrow> string \<Rightarrow> bool" where
  "includes_str [] t = (t = [])"
| "includes_str (c # s) t = (startsWith (c # s) t \<or> includes_str s t)"

text \<open>The class attribute split at spaces: the element's class list.\<close>

fun splitSpaces :: "string \<Rightarrow> string \<Rightarrow> string list" where
  "splitSpaces cur [] = (if cur = [] then [] else [rev cur])"
| "splitSpaces cur (c # cs) =
     (if isSpace c then (if cur = [] then [] else [rev cur]) @ splitSpaces [] cs
      else splitSpaces (c # cur) cs)"

definition classList :: "element \<Rightarrow> string list" where
  "classList el = (case getAttribute el ''class'' of None \<Rightarrow> [] | Some v \<Rightarrow> splitSpaces [] v)"

subsection \<open>Selectors\<close>

text \<open>
  The selector strings of the script, by their form. \<open>Contains t\<close> is the string
  \<^verbatim>\<open>button:contains("t")\<close>, which is not CSS: the script recognises it by
  \<^verbatim>\<open>selector.includes('contains')\<close> and matches the text of every \<^verbatim>\<open>button\<close> itself.
\<close>

datatype selector =
    TagAttrEq string string string
  | Contains string
  | ClassSel string
  | IdSel string
  | Tag string
  | AttrIncludes string string
  | AttrEq string string
  | HasAttr string

fun matches :: "selector \<Rightarrow> element \<Rightarrow> bool" where
  "matches (TagAttrEq t a v) el = (tagName el = t \<and> getAttribute el a = Some v)"
| "matches (Contains t) el = False"
| "matches (ClassSel c) el = (c \<in> set (classList el))"
| "matches (IdSel i) el = (getAttribute el ''id'' = Some i)"
| "matches (Tag t) el = (tagName el = t)"
| "matches (AttrIncludes a v) el =
     (case getAttribute el a of None \<Rightarrow> False | Some w \<Rightarrow> includes_str w v)"
| "matches (AttrEq a v) el = (getAttribute el a = Some v)"
| "matches (HasAttr a) el = (getAttribute el a \<noteq> None)"

text \<open>\<^verbatim>\<open>page.$$(selector)\<close>, and \<^verbatim>\<open>page.$$\<close> of a comma-separated group.\<close>

definition querySelectorAll :: "element list \<Rightarrow> selector \<Rightarrow> element list" where
  "querySelectorAll page selector = filter (matches selector) page"

definition querySelectorAllGroup :: "element list \<Rightarrow> selector list \<Rightarrow> element list" where
  "querySelectorAllGroup page selectors = filter (\<lambda>el. list_ex (\<lambda>s. matches s el) selectors) page"

fun isContains :: "selector \<Rightarrow> bool" where
  "isContains (Contains t) = True"
| "isContains _ = False"

fun searchTextOf :: "selector \<Rightarrow> string" where
  "searchTextOf (Contains t) = t"
| "searchTextOf _ = []"

subsection \<open>The click loops of \<^verbatim>\<open>createClickWorker\<close>\<close>

text \<open>
  The inner loop over the elements a CSS selector found. Each element is tried inside
  its own \<^verbatim>\<open>try\<close>: a failed click moves on to the next element.
\<close>

fun clickFirstClickable :: "element list \<Rightarrow> element option" where
  "clickFirstClickable [] = None"
| "clickFirstClickable (el # els) = (if clickable el then Some el else clickFirstClickable els)"

text \<open>
  The inner loop over the buttons for a text selector. The first button whose trimmed,
  lower-cased text includes the lower-cased search text is clicked; there is no
  \<^verbatim>\<open>try\<close> around that click, so when it fails the exception leaves the loop and the
  selector is given up (the \<^verbatim>\<open>catch\<close> of the outer loop's body).
\<close>

fun clickByText :: "string \<Rightarrow> element list \<Rightarrow> element option" where
  "clickByText searchText [] = None"
| "clickByText searchText (button # buttons) =
     (if includes_str (toLowerCase (trim (textContent button))) (toLowerCase searchText)
      then (if clickable button then Some button else None)
      else clickByText searchText buttons)"

definition submitSelectors :: "selector list" where
  "submitSelectors =
     [TagAttrEq ''button'' ''type'' ''submit'',
      TagAttrEq ''input'' ''type'' ''submit'',
      Contains ''Send'',
      Contains ''Submit'',
      Contains ''Ask'',
      Contains ''Go'',
      Contains ''Enter'',
      ClassSel ''send-btn'',
      ClassSel ''submit-btn'',
      IdSel ''send'',
      IdSel ''submit'',
      IdSel ''send-btn'',
      Tag ''button'']"

definition fallbackSelectors :: "selector list" where
  "fallbackSelectors =
     [AttrIncludes ''onclick'' ''send'',
      AttrIncludes ''onclick'' ''submit'',
      AttrIncludes ''class'' ''send'',
      AttrIncludes ''class'' ''submit'',
      AttrIncludes ''id'' ''send'',
      AttrIncludes ''id'' ''submit'',
      TagAttrEq ''input'' ''type'' ''button'',
      AttrEq ''role'' ''button'']"

definition anyClickableSelectors :: "selector list" where
  "anyClickableSelectors =
     [Tag ''button'', TagAttrEq ''input'' ''type'' ''button'', TagAttrEq ''input'' ''type'' ''submit'',
      HasAttr ''onclick'', AttrEq ''role'' ''button'']"

text \<open>One pass of the body of the loop over \<^verbatim>\<open>submitSelectors\<close>.\<close>

definition trySubmitSelector :: "element list \<Rightarrow> selector \<Rightarrow> element option" where
  "trySubmitSelector page selector =
     (if isContains selector
      then clickByText (searchTextOf selector) (querySelectorAll page (Tag ''button''))
      else clickFirstClickable (querySelectorAll page selector))"

text \<open>
  Where a click came from: a selector of the first list, a selector of the fallback
  list, or the last resort over anything that may be clickable.
\<close>

datatype strategy = Submit selector | Fallback selector | AnyClickable

fun submitLoop :: "element list \<Rightarrow> selector list \<Rightarrow> (strategy \<times> element) option" where
  "submitLoop page [] = None"
| "submitLoop page (selector # rest) =
     (case trySubmitSelector page selector of
        Some el \<Rightarrow> Some (Submit selector, el)
      | None \<Rightarrow> submitLoop page rest)"

fun fallbackLoop :: "element list \<Rightarrow> selector list \<Rightarrow> (strategy \<times> element) option" where
  "fallbackLoop page [] = None"
| "fallbackLoop page (fallbackSelector # rest) =
     (case clickFirstClickable (querySelectorAll page fallbackSelector) of
        Some el \<Rightarrow> Some (Fallback fallbackSelector, el)
      | None \<Rightarrow> fallbackLoop page rest)"

text \<open>The last resort tries the first three elements of the group only.\<close>

definition anyClickableLoop :: "element list \<Rightarrow> (strategy \<times> element) option" where
  "anyClickableLoop page =
     (case clickFirstClickable (take 3 (querySelectorAllGroup page anyClickableSelectors)) of
        Some el \<Rightarrow> Some (AnyClickable, el)
      | None \<Rightarrow> None)"

text \<open>
  The three stages in sequence; each later stage runs only while \<^verbatim>\<open>submitted\<close> is
  still false. \<open>None\<close> is \<^verbatim>\<open>submitted = false\<close> at the end: the worker logs that no send
  button was found and waits the fallback delay.
\<close>

definition primaryInteraction :: "element list \<Rightarrow> (strategy \<times> element) option" where
  "primaryInteraction page =
     (case submitLoop page submitSelectors of
        Some r \<Rightarrow> Some r
      | None \<Rightarrow>
          (case fallbackLoop page fallbackSelectors of
             Some r \<Rightarrow> Some r
           | None \<Rightarrow> anyClickableLoop page))"

subsection \<open>The click loops of \<^verbatim>\<open>createTabWorker\<close>\<close>

text \<open>
  In the bounded variant no click has a \<^verbatim>\<open>try\<close> of its own: a failed click ends the
  selector. For a CSS selector only the first element found is tried. The text test
  reads the raw \<^verbatim>\<open>textContent\<close>, which must be non-empty.
\<close>

fun clickFirst :: "element list \<Rightarrow> element option" where
  "clickFirst [] = None"
| "clickFirst (el # els) = (if clickable el then Some el else None)"

fun clickByText_tab :: "string \<Rightarrow> element list \<Rightarrow> element option" where
  "clickByText_tab searchText [] = None"
| "clickByText_tab searchText (el # els) =
     (if textContent el \<noteq> [] \<and> includes_str (toLowerCase (textContent el)) (toLowerCase searchText)
      then (if clickable el then Some el else None)
      else clickByText_tab searchText els)"

definition submitSelectors_tab :: "selector list" where
  "submitSelectors_tab =
     [TagAttrEq ''button'' ''type'' ''submit'',
      TagAttrEq ''input'' ''type'' ''submit'',
      Contains ''Submit'',
      Contains ''Send'',
      Contains ''Ask'',
      Tag ''button'',
      ClassSel ''submit-btn'',
      ClassSel ''send-btn'',
      IdSel ''submit'',
      IdSel ''send-btn'']"

definition clickableSelectors_tab :: "selector list" where
  "clickableSelectors_tab =
     [Tag ''button'', TagAttrEq ''input'' ''type'' ''button'', HasAttr ''onclick'',
      AttrEq ''role'' ''button'']"

definition trySubmitSelector_tab :: "element list \<Rightarrow> selector \<Rightarrow> element option" where
  "trySubmitSelector_tab page selector =
     (if isContains selector
      then clickByText_tab (searchTextOf selector) (querySelectorAll page (Tag ''button''))
      else clickFirst (querySelectorAll page selector))"

fun submitLoop_tab :: "element list \<Rightarrow> selector list \<Rightarrow> (strategy \<times> element) option" where
  "submitLoop_tab page [] = None"
| "submitLoop_tab page (selector # rest) =
     (case trySubmitSelector_tab page selector of
        Some el \<Rightarrow> Some (Submit selector, el)
      | None \<Rightarrow> submitLoop_tab page rest)"

definition primaryInteraction_tab :: "element list \<Rightarrow> (strategy \<times> element) option" where
  "primaryInteraction_tab page =
     (case submitLoop_tab page submitSelectors_tab of
        Some r \<Rightarrow> Some r
      | None \<Rightarrow>
          (case clickFirst (querySelectorAllGroup page clickableSelectors_tab) of
             Some el \<Rightarrow> Some (AnyClickable, el)
           | None \<Rightarrow> None))"

subsection \<open>The order of the attempts, stated separately\<close>

text \<open>
  A declarative reading of the loops, to compare them with: the first strategy of a
  list whose attempt yields an element.
\<close>

fun firstSuccess :: "('s \<Rightarrow> 'e option) \<Rightarrow> 's list \<Rightarrow> ('s \<times> 'e) option" where
  "firstSuccess attempt [] = None"
| "firstSuccess attempt (s # ss) =
     (case attempt s of Some e \<Rightarrow> Some (s, e) | None \<Rightarrow> firstSuccess attempt ss)"

fun attempt :: "element list \<Rightarrow> strategy \<Rightarrow> element option" where
  "attempt page (Submit selector) = trySubmitSelector page selector"
| "attempt page (Fallback selector) = clickFirstClickable (querySelectorAll page selector)"
| "attempt page AnyClickable =
     clickFirstClickable (take 3 (querySelectorAllGroup page anyClickableSelectors))"

definition strategyOrder :: "strategy list" where
  "strategyOrder = map Submit submitSelectors @ map Fallback fallbackSelectors @ [AnyClickable]"

fun attempt_tab :: "element list \<Rightarrow> strategy \<Rightarrow> element option" where
  "attempt_tab page (Submit selector) = trySubmitSelector_tab page selector"
| "attempt_tab page (Fallback selector) = None"
| "attempt_tab page AnyClickable = clickFirst (querySelectorAllGroup page clickableSelectors_tab)"

definition strategyOrder_tab :: "strategy list" where
  "strategyOrder_tab = map Submit submitSelectors_tab @ [AnyClickable]"

text \<open>
  The order as claim C8 words it, for comparison: submit-typed controls, then a button
  whose text holds one of the keywords, then the attribute heuristics, then anything
  that may be clickable; the first clickable element of the first group that has one.
\<close>

definition hasKeywordText :: "element \<Rightarrow> bool" where
  "hasKeywordText el =
     (tagName el = ''button'' \<and>
      list_ex (\<lambda>k. includes_str (toLowerCase (trim (textContent el))) k)
        [''send'', ''submit'', ''ask'', ''go'', ''enter''])"

definition claimedInteraction :: "element list \<Rightarrow> element option" where
  "claimedInteraction page =
     (case clickFirstClickable (querySelectorAllGroup page
             [TagAttrEq ''button'' ''type'' ''submit'', TagAttrEq ''input'' ''type'' ''submit'']) of
        Some el \<Rightarrow> Some el
      | None \<Rightarrow>
     (case clickFirstClickable (filter hasKeywordText page) of
        Some el \<Rightarrow> Some el
      | None \<Rightarrow>
     (case clickFirstClickable (querySelectorAllGroup page
             [AttrIncludes ''onclick'' ''send'', AttrIncludes ''onclick'' ''submit'',
              AttrIncludes ''class'' ''send'', AttrIncludes ''class'' ''submit'',
              AttrIncludes ''id'' ''send'', AttrIncludes ''id'' ''submit'']) of
        Some el \<Rightarrow> Some el
      | None \<Rightarrow> clickFirstClickable (querySelectorAllGroup page anyClickableSelectors))))"

text \<open>A page with a plain button after an element that only the heuristics match.\<close>

definition sendArea :: element where
  "sendArea = \<lparr>tagName = ''div'', attrs = [(''class'', ''send-area''), (''onclick'', ''post()'')],
               textContent = ''Post'', clickable = True\<rparr>"

definition helloButton :: element where
  "helloButton = \<lparr>tagName = ''button'', attrs = [], textContent = ''Hello'', clickable = True\<rparr>"

definition heuristicPage :: "element list" where
  "heuristicPage = [sendArea, helloButton]"

section \<open>The bounded campaign\<close>

text \<open>
  \<^verbatim>\<open>shouldContinue\<close>, \<^verbatim>\<open>openEnhancedTabs\<close> and \<^verbatim>\<open>runEnhancedAutomation\<close> of the bounded
  variant. The script fixes five URLs, five tabs per URL, a concurrency of one and
  \<^verbatim>\<open>MAX_CLICKS = 100\<close>; here they are the fields of a configuration.
\<close>

record config =
  cfg_urls :: "string list"
  numberOfTabsPerUrl :: nat
  concurrentTabsPerUrl :: nat
  MAX_CLICKS :: nat

definition scriptConfig :: config where
  "scriptConfig =
     \<lparr>cfg_urls =
        [''https://aiskillshouse.com/student/qr-mediator.html?uid=50&promptId=17'',
         ''https://aiskillshouse.com/student/qr-mediator.html?uid=50&promptId=13'',
         ''https://aiskillshouse.com/student/qr-mediator.html?uid=50&promptId=14'',
         ''https://aiskillshouse.com/student/qr-mediator.html?uid=50&promptId=16'',
         ''https://aiskillshouse.com/student/qr-mediator.html?uid=50&promptId=15''],
      numberOfTabsPerUrl = 5, concurrentTabsPerUrl = 1, MAX_CLICKS = 100\<rparr>"

definition shouldContinue_bounded :: "config \<Rightarrow> telemetry \<Rightarrow> bool" where
  "shouldContinue_bounded cfg t = (globalClickCounter t < MAX_CLICKS cfg)"

subsection \<open>\<^verbatim>\<open>openEnhancedTabs\<close>\<close>

text \<open>
  One call of \<^verbatim>\<open>openEnhancedTabs\<close> is a task. It is suspended either in
  \<^verbatim>\<open>Promise.allSettled\<close> on the batch it has just created, the last worker of which has
  index \<open>i\<close>, or in the random delay that follows a batch; or it has returned.
  \<open>t_workers\<close> is the array \<^verbatim>\<open>workers\<close> as the last pass of the loop left it. The
  object the function returns is only printed and is not modelled.
\<close>

datatype task_pc = AwaitingBatch nat | BatchDelay nat | TaskReturned

record task =
  t_index :: nat
  t_url :: string
  t_pc :: task_pc
  t_workers :: "worker list"

text \<open>
  The \<^verbatim>\<open>for\<close> loop from index \<open>i\<close> up to its next await. Creating a worker runs it up
  to its first await, the launch of its browser. In JavaScript \<^verbatim>\<open>(i + 1) % 0\<close> is
  \<^verbatim>\<open>NaN\<close>, which is not \<^verbatim>\<open>0\<close>: with a concurrency of zero only the last index ends a
  batch.
\<close>

function openEnhancedTabs_loop ::
  "config \<Rightarrow> telemetry \<Rightarrow> string \<Rightarrow> nat \<Rightarrow> nat \<Rightarrow> nat \<Rightarrow> worker list \<Rightarrow> task_pc \<times> worker list"
  where
  "openEnhancedTabs_loop cfg t targetUrl numberOfTabs maxConnections i workers =
     (if i < numberOfTabs
      then (if \<not> shouldContinue_bounded cfg t then (TaskReturned, workers)
            else (let workers' = workers @ [newWorker targetUrl i]
                  in if (maxConnections \<noteq> 0 \<and> (i + 1) mod maxConnections = 0)
                        \<or> i = numberOfTabs - 1
                     then (AwaitingBatch i, workers')
                     else openEnhancedTabs_loop cfg t targetUrl numberOfTabs maxConnections
                            (i + 1) workers'))
      else (TaskReturned, workers))"
  by pat_completeness auto
termination
  by (relation "measure (\<lambda>(cfg, t, targetUrl, numberOfTabs, maxConnections, i, workers).
        numberOfTabs - i)") auto

declare openEnhancedTabs_loop.simps [simp del]

subsection \<open>\<^verbatim>\<open>runEnhancedAutomation\<close>\<close>

text \<open>
  The orchestrator is suspended in \<^verbatim>\<open>Promise.allSettled(urlPromises)\<close>, in the delay
  between two cycles, or in the write of the final report; or it has finished.
  \<open>c_tasks\<close> are the calls of \<^verbatim>\<open>openEnhancedTabs\<close> of the current cycle, one per URL;
  \<open>c_background\<close> holds the workers that a task no longer refers to (those of earlier
  batches and cycles), which go on running all the same. \<open>c_launches\<close> lists the calls
  of \<^verbatim>\<open>puppeteer.launch\<close> in the order they were made, each with the number of the
  cycle, the position of its URL in the list and the index of its tab.
\<close>

datatype orchestrator_pc =
    AwaitingCycle
  | CycleDelay
  | WritingFinalReport "recordWithMeta list"
  | CampaignFinished

record campaign =
  c_telemetry :: telemetry
  c_tasks :: "task list"
  c_background :: "worker list"
  c_pc :: orchestrator_pc
  cycleCount :: nat
  c_launches :: "(nat \<times> nat \<times> nat) list"

text \<open>
  The callback of \<^verbatim>\<open>urls.map\<close> for one URL, up to its await: the callbacks of all URLs
  run one after the other before any awaited operation can settle, so every URL has
  workers in flight at the same time.
\<close>

definition urlCallback :: "config \<Rightarrow> telemetry \<Rightarrow> nat \<times> string \<Rightarrow> task" where
  "urlCallback cfg t iu =
     (if \<not> shouldContinue_bounded cfg t
      then \<lparr>t_index = fst iu, t_url = snd iu, t_pc = TaskReturned, t_workers = []\<rparr>
      else (case openEnhancedTabs_loop cfg t (snd iu) (numberOfTabsPerUrl cfg)
                   (concurrentTabsPerUrl cfg) 0 [] of
              (p, workers) \<Rightarrow>
                \<lparr>t_index = fst iu, t_url = snd iu, t_pc = p, t_workers = workers\<rparr>))"

definition launchesOf :: "nat \<Rightarrow> task \<Rightarrow> (nat \<times> nat \<times> nat) list" where
  "launchesOf cycle tk = map (\<lambda>w. (cycle, t_index tk, w_index w)) (t_workers tk)"

text \<open>After the loop: the summary is printed and the final report written.\<close>

definition finalReport :: "campaign \<Rightarrow> campaign" where
  "finalReport c =
     (if clickReportData (c_telemetry c) \<noteq> []
      then c\<lparr>c_pc := WritingFinalReport (generateCSVReport (c_telemetry c))\<rparr>
      else c\<lparr>c_pc := CampaignFinished\<rparr>)"

text \<open>The head of \<^verbatim>\<open>while (shouldContinue())\<close> and the start of a cycle.\<close>

definition whileLoop :: "config \<Rightarrow> campaign \<Rightarrow> campaign" where
  "whileLoop cfg c =
     (if shouldContinue_bounded cfg (c_telemetry c)
      then (let urlPromises = map (urlCallback cfg (c_telemetry c)) (enumerate 0 (cfg_urls cfg))
            in c\<lparr>c_tasks := urlPromises,
                 c_background := c_background c @ concat (map t_workers (c_tasks c)),
                 c_pc := AwaitingCycle,
                 c_launches := c_launches c @ concat (map (launchesOf (cycleCount c)) urlPromises)\<rparr>)
      else finalReport c)"

definition runEnhancedAutomation_bounded :: "config \<Rightarrow> campaign" where
  "runEnhancedAutomation_bounded cfg =
     whileLoop cfg \<lparr>c_telemetry = initialTelemetry, c_tasks = [], c_background = [],
                    c_pc = AwaitingCycle, cycleCount = 1, c_launches = []\<rparr>"

subsection \<open>The event loop\<close>

text \<open>
  One event is one resumption of a suspended function: a worker whose awaited operation
  has settled with the given outcome, a task whose batch has settled or whose delay is
  over, the orchestrator. An event that is not enabled yields \<open>None\<close>. Any order of
  enabled events is a run; the order in which operations really settle is one of them.
\<close>

datatype event =
    WorkerResumes nat nat outcome
  | BackgroundResumes nat outcome
  | BatchSettles nat
  | BatchDelayEnds nat
  | CycleSettles
  | CycleDelayEnds
  | FinalReportSettles outcome

definition allSettled :: "worker list \<Rightarrow> bool" where
  "allSettled workers = list_all (\<lambda>w. w_pc w = Settled) workers"

definition workerResumes :: "config \<Rightarrow> nat \<Rightarrow> nat \<Rightarrow> outcome \<Rightarrow> campaign \<Rightarrow> campaign option" where
  "workerResumes cfg u k out c =
     (if u < length (c_tasks c) \<and> k < length (t_workers (c_tasks c ! u)) \<and>
         w_pc (t_workers (c_tasks c ! u) ! k) \<noteq> Settled
      then (case createTabWorker_step (MAX_CLICKS cfg) out (t_workers (c_tasks c ! u) ! k)
                   (c_telemetry c) of
              (w', t') \<Rightarrow>
                Some (c\<lparr>c_telemetry := t',
                        c_tasks := (c_tasks c)[u := (c_tasks c ! u)
                           \<lparr>t_workers := (t_workers (c_tasks c ! u))[k := w']\<rparr>]\<rparr>))
      else None)"

definition backgroundResumes :: "config \<Rightarrow> nat \<Rightarrow> outcome \<Rightarrow> campaign \<Rightarrow> campaign option" where
  "backgroundResumes cfg k out c =
     (if k < length (c_background c) \<and> w_pc (c_background c ! k) \<noteq> Settled
      then (case createTabWorker_step (MAX_CLICKS cfg) out (c_background c ! k) (c_telemetry c) of
              (w', t') \<Rightarrow>
                Some (c\<lparr>c_telemetry := t', c_background := (c_background c)[k := w']\<rparr>))
      else None)"

text \<open>
  After \<^verbatim>\<open>Promise.allSettled\<close> on the batch: leave the loop when the limit is reached,
  otherwise wait the random delay.
\<close>

definition batchSettles :: "config \<Rightarrow> nat \<Rightarrow> campaign \<Rightarrow> campaign option" where
  "batchSettles cfg u c =
     (if u < length (c_tasks c)
      then (case t_pc (c_tasks c ! u) of
              AwaitingBatch i \<Rightarrow>
                (if allSettled (t_workers (c_tasks c ! u))
                 then Some (c\<lparr>c_tasks := (c_tasks c)[u := (c_tasks c ! u)
                        \<lparr>t_pc := (if \<not> shouldContinue_bounded cfg (c_telemetry c)
                                   then TaskReturned else BatchDelay i)\<rparr>]\<rparr>)
                 else None)
            | _ \<Rightarrow> None)
      else None)"

text \<open>After the delay: the loop goes on at the next index with an empty \<^verbatim>\<open>workers\<close>.\<close>

definition batchDelayEnds :: "config \<Rightarrow> nat \<Rightarrow> campaign \<Rightarrow> campaign option" where
  "batchDelayEnds cfg u c =
     (if u < length (c_tasks c)
      then (case t_pc (c_tasks c ! u) of
              BatchDelay i \<Rightarrow>
                (case openEnhancedTabs_loop cfg (c_telemetry c) (t_url (c_tasks c ! u))
                        (numberOfTabsPerUrl cfg) (concurrentTabsPerUrl cfg) (i + 1) [] of
                   (p, workers) \<Rightarrow>
                     (let tk = (c_tasks c ! u)\<lparr>t_pc := p, t_workers := workers\<rparr>
                      in Some (c\<lparr>c_tasks := (c_tasks c)[u := tk],
                                 c_background := c_background c @ t_workers (c_tasks c ! u),
                                 c_launches := c_launches c @ launchesOf (cycleCount c) tk\<rparr>)))
            | _ \<Rightarrow> None)
      else None)"

text \<open>
  After \<^verbatim>\<open>Promise.allSettled(urlPromises)\<close>: every task of the cycle has returned. The
  loop is left when the limit is reached; otherwise the cycle number goes up and the
  delay between cycles is awaited.
\<close>

definition cycleSettles :: "config \<Rightarrow> campaign \<Rightarrow> campaign option" where
  "cycleSettles cfg c =
     (if c_pc c = AwaitingCycle \<and> list_all (\<lambda>tk. t_pc tk = TaskReturned) (c_tasks c)
      then (if \<not> shouldContinue_bounded cfg (c_telemetry c) then Some (finalReport c)
            else (let c' = c\<lparr>cycleCount := cycleCount c + 1\<rparr>
                  in if shouldContinue_bounded cfg (c_telemetry c')
                     then Some (c'\<lparr>c_pc := CycleDelay\<rparr>)
                     else Some (whileLoop cfg c')))
      else None)"

definition cycleDelayEnds :: "config \<Rightarrow> campaign \<Rightarrow> campaign option" where
  "cycleDelayEnds cfg c = (if c_pc c = CycleDelay then Some (whileLoop cfg c) else None)"

text \<open>The final report is written inside a \<^verbatim>\<open>try\<close> whose \<^verbatim>\<open>catch\<close> only prints.\<close>

definition finalReportSettles :: "outcome \<Rightarrow> campaign \<Rightarrow> campaign option" where
  "finalReportSettles out c =
     (case c_pc c of
        WritingFinalReport csvContent \<Rightarrow>
          Some (c\<lparr>c_telemetry := snd (generateCSVReport_settled out csvContent (c_telemetry c)),
                  c_pc := CampaignFinished\<rparr>)
      | _ \<Rightarrow> None)"

fun step :: "config \<Rightarrow> event \<Rightarrow> campaign \<Rightarrow> campaign option" where
  "step cfg (WorkerResumes u k out) c = workerResumes cfg u k out c"
| "step cfg (BackgroundResumes k out) c = backgroundResumes cfg k out c"
| "step cfg (BatchSettles u) c = batchSettles cfg u c"
| "step cfg (BatchDelayEnds u) c = batchDelayEnds cfg u c"
| "step cfg CycleSettles c = cycleSettles cfg c"
| "step cfg CycleDelayEnds c = cycleDelayEnds cfg c"
| "step cfg (FinalReportSettles out) c = finalReportSettles out c"

fun run :: "config \<Rightarrow> event list \<Rightarrow> campaign \<Rightarrow> campaign option" where
  "run cfg [] c = Some c"
| "run cfg (ev # evs) c = (case step cfg ev c of None \<Rightarrow> None | Some c' \<Rightarrow> run cfg evs c')"

text \<open>The states the campaign of a configuration can be in.\<close>

definition reachable :: "config \<Rightarrow> campaign \<Rightarrow> bool" where
  "reachable cfg c = (\<exists>evs. run cfg evs (runEnhancedAutomation_bounded cfg) = Some c)"

text \<open>A worker that has been launched and has not yet reached \<^verbatim>\<open>incrementClickCounter\<close>.\<close>

definition inFlight :: "worker \<Rightarrow> bool" where
  "inFlight w = (w_pc w \<in> {Launching, OpeningPage, Navigating, Inspecting, Interacting})"




subsection \<open>Invariants\<close>

text \<open>
  The record numbers are the numbers from one up to the counter, in the order the
  records were appended.
\<close>

definition numbered :: "telemetry \<Rightarrow> bool" where
  "numbered t = (map clickNumber (clickReportData t) = [1..<Suc (globalClickCounter t)])"





text \<open>
  Where the handles of a worker stand at each suspension point: none before the
  launch has settled, both open from the page's creation to the \<^verbatim>\<open>finally\<close> block, none
  open once the worker has settled.
\<close>

fun handlesAt :: "worker_pc \<Rightarrow> handle \<Rightarrow> handle \<Rightarrow> bool" where
  "handlesAt Launching b p = (b = NotAcquired \<and> p = NotAcquired)"
| "handlesAt OpeningPage b p = (b = Open \<and> p = NotAcquired)"
| "handlesAt ClosingPage b p = (b = Open \<and> p = Open)"
| "handlesAt ClosingBrowser b p = (b = Open \<and> p \<noteq> Open)"
| "handlesAt Settled b p = (b \<noteq> Open \<and> p \<noteq> Open)"
| "handlesAt pc b p = (b = Open \<and> p = Open)"

definition handlesOk :: "worker \<Rightarrow> bool" where
  "handlesOk w = handlesAt (w_pc w) (w_browser w) (w_page w)"

definition workersOf :: "campaign \<Rightarrow> worker list" where
  "workersOf c = concat (map t_workers (c_tasks c)) @ c_background c"

text \<open>A worker as \<^verbatim>\<open>createTabWorker\<close> leaves it at its first await.\<close>

definition launched :: "string \<Rightarrow> worker \<Rightarrow> bool" where
  "launched u w =
     (w_pc w = Launching \<and> w_url w = u \<and> w_browser w = NotAcquired \<and> w_page w = NotAcquired)"





text \<open>The scenario of the specification: three URLs, a concurrency of one, a budget of two.\<close>

definition scenarioConfig :: config where
  "scenarioConfig =
     \<lparr>cfg_urls = [''https://example.org/0'', ''https://example.org/1'', ''https://example.org/2''],
       numberOfTabsPerUrl = 5, concurrentTabsPerUrl = 1, MAX_CLICKS = 2\<rparr>"

text \<open>
  The events of one session of the task at position \<open>u\<close> in which every operation
  resolves: launch, page, navigation, inspection, interaction, the CSV append and the
  two closes; and the same with the write of the report, when the session reaches the
  limit.
\<close>

definition sessionSucceeds :: "nat \<Rightarrow> event list" where
  "sessionSucceeds u = replicate 8 (WorkerResumes u 0 Resolved)"

definition sessionReachesLimit :: "nat \<Rightarrow> event list" where
  "sessionReachesLimit u = replicate 9 (WorkerResumes u 0 Resolved)"



text \<open>
  A run of the scenario in which the task of the first URL starts its second session
  while the first sessions of the other two are still going.
\<close>

definition overlapEvents :: "event list" where
  "overlapEvents =
     sessionSucceeds 0 @ [BatchSettles 0, BatchDelayEnds 0] @
     sessionReachesLimit 1 @ sessionReachesLimit 2 @ sessionReachesLimit 0 @
     [BatchSettles 0, BatchSettles 1, BatchSettles 2, CycleSettles, FinalReportSettles Resolved]"

definition overlapOutcome :: campaign where
  "overlapOutcome =
     (case run scenarioConfig overlapEvents (runEnhancedAutomation_bounded scenarioConfig) of
        Some c \<Rightarrow> c
      | None \<Rightarrow> runEnhancedAutomation_bounded scenarioConfig)"

section \<open>The unbounded campaign\<close>






section \<open>Concurrent completions: the invariant and an example\<close>

text \<open>
  The counter is the number of calls that have started, and the records are numbered
  from one up to the counter.
\<close>

definition callsOk :: "call list \<times> telemetry \<Rightarrow> bool" where
  "callsOk s = (globalClickCounter (snd s) = length (filter started (fst s)) \<and> numbered (snd s))"

text \<open>
  Three workers complete while the calls of the others are suspended at the append of
  their CSV row: the first two calls start, the first finishes, the third starts, then
  the second and the third finish.
\<close>

definition exampleData :: "clickData list" where
  "exampleData =
     [\<lparr>tabNumber = 1, url = ''https://example.org/0''\<rparr>,
      \<lparr>tabNumber = 1, url = ''https://example.org/1''\<rparr>,
      \<lparr>tabNumber = 1, url = ''https://example.org/2''\<rparr>]"

definition exampleSchedule :: "(nat \<times> outcome) list" where
  "exampleSchedule =
     [(0, Resolved), (1, Resolved), (0, Resolved), (2, Rejected), (1, Rejected), (2, Resolved)]"

definition exampleOutcome :: "call list \<times> telemetry" where
  "exampleOutcome =
     (case runCalls incrementClickCounter_resume exampleSchedule
             (map NotCalled exampleData, initialTelemetry) of
        Some s \<Rightarrow> s
      | None \<Rightarrow> ([], initialTelemetry))"

section \<open>A session among others\<close>







section \<open>Properties of the profile generator\<close>

lemma getRandomElement_Some:
  assumes "unit_draw r" and "array \<noteq> []"
  shows "\<exists>x. getRandomElement array r = Some x \<and> x \<in> set array"
proof -
  let ?n = "length array"
  have n: "0 < ?n" using assms(2) by simp
  have lo: "0 \<le> r * real ?n" using assms(1) by (simp add: unit_draw_def)
  have hi: "r * real ?n < real ?n" using assms(1) n by (simp add: unit_draw_def)
  have "\<lfloor>r * real ?n\<rfloor> < int ?n" using hi by (simp add: floor_less_iff)
  moreover have "0 \<le> \<lfloor>r * real ?n\<rfloor>" using lo by simp
  ultimately have "nat \<lfloor>r * real ?n\<rfloor> < ?n" by linarith
  then show ?thesis by (simp add: getRandomElement_def Let_def)
qed

lemma canonical_Mumbai: "canonicalCoords ''Mumbai'' = Some \<lparr>lat = 19.0760, lng = 72.8777\<rparr>"
  by (simp add: canonicalCoords_def indianCoordinates_def)

lemma canonical_Shimla: "canonicalCoords ''Shimla'' = None"
  by (simp add: canonicalCoords_def indianCoordinates_def)

lemma indianIPData_nonempty: "indianIPData \<noteq> []"
  by (simp add: indianIPData_def)

lemma coordsOrMumbai_Some: "\<exists>c. coordsOrMumbai cityName = Some c"
  by (simp add: coordsOrMumbai_def canonical_Mumbai split: option.split)

text \<open>Every entry of the coordinate table lies between 0 and 100 on both axes.\<close>

lemma indianCoordinates_range:
  "\<forall>kc\<in>set indianCoordinates.
     0 \<le> lat (snd kc) \<and> lat (snd kc) \<le> 100 \<and> 0 \<le> lng (snd kc) \<and> lng (snd kc) \<le> 100"
  by (simp add: indianCoordinates_def)

lemma canonicalCoords_range:
  assumes "canonicalCoords cityName = Some c"
  shows "0 \<le> lat c \<and> lat c \<le> 100 \<and> 0 \<le> lng c \<and> lng c \<le> 100"
proof -
  from assms have "(cityName, c) \<in> set (rev indianCoordinates)"
    unfolding canonicalCoords_def by (rule map_of_SomeD)
  then have "(cityName, c) \<in> set indianCoordinates" by simp
  with indianCoordinates_range show ?thesis by fastforce
qed

lemma coordsOrMumbai_range:
  assumes "coordsOrMumbai cityName = Some c"
  shows "0 \<le> lat c \<and> lat c \<le> 100 \<and> 0 \<le> lng c \<and> lng c \<le> 100"
proof (cases "canonicalCoords cityName")
  case None
  with assms have "canonicalCoords ''Mumbai'' = Some c"
    by (simp add: coordsOrMumbai_def)
  then show ?thesis by (rule canonicalCoords_range)
next
  case (Some c')
  with assms have "canonicalCoords cityName = Some c"
    by (simp add: coordsOrMumbai_def)
  then show ?thesis by (rule canonicalCoords_range)
qed

text \<open>One rounding: how large the rounded value is, and how far from the exact one.\<close>

lemma unitRoundoff_small: "0 < unitRoundoff \<and> unitRoundoff \<le> 1 / 10 ^ 15"
  by (simp add: unitRoundoff_def)

lemma rounded_size:
  assumes "\<bar>e\<bar> \<le> u" and "\<bar>x\<bar> \<le> b"
  shows "\<bar>rounded e x\<bar> \<le> b * (1 + u)"
proof -
  have "\<bar>1 + e\<bar> \<le> 1 + u" using assms(1) by arith
  moreover have "0 \<le> b" using assms(2) by arith
  ultimately have "\<bar>x\<bar> * \<bar>1 + e\<bar> \<le> b * (1 + u)"
    using assms(2) by (intro mult_mono) simp_all
  then show ?thesis by (simp add: rounded_def abs_mult)
qed

lemma rounded_error:
  assumes "\<bar>e\<bar> \<le> u" and "\<bar>x\<bar> \<le> b"
  shows "\<bar>rounded e x - x\<bar> \<le> b * u"
proof -
  have "0 \<le> b" using assms(2) by arith
  then have "\<bar>x\<bar> * \<bar>e\<bar> \<le> b * u"
    using assms by (intro mult_mono) simp_all
  moreover have "rounded e x - x = x * e"
    by (simp add: rounded_def algebra_simps)
  ultimately show ?thesis by (simp add: abs_mult)
qed

text \<open>
  The jitter over doubles: the result is within the radius of the entry, up to the
  rounding of the five operations.
\<close>

lemma jitter_bound:
  assumes r: "unit_draw r" and ok: "rounding_ok \<rho>" and x: "0 \<le> x" "x \<le> 100"
  shows "\<bar>jitter x r \<rho> - x\<bar> \<le> jitterRadius + roundingAllowance \<and>
         \<bar>jitter x r \<rho> - rounded (e_entry \<rho>) x\<bar> \<le> jitterRadius + roundingAllowance"
proof -
  define u :: real where "u = 1 / 10 ^ 15"
  from ok unitRoundoff_small have e: "\<bar>e_entry \<rho>\<bar> \<le> u" "\<bar>e_sub \<rho>\<bar> \<le> u"
    "\<bar>e_const \<rho>\<bar> \<le> u" "\<bar>e_mul \<rho>\<bar> \<le> u" "\<bar>e_add \<rho>\<bar> \<le> u"
    by (simp_all add: rounding_ok_def u_def)
  define s where "s = rounded (e_sub \<rho>) (r - 0.5)"
  define k where "k = rounded (e_const \<rho>) 0.01"
  define p where "p = rounded (e_mul \<rho>) (s * k)"
  define xd where "xd = rounded (e_entry \<rho>) x"
  have "0 \<le> r" and "r < 1" using r by (simp_all add: unit_draw_def)
  then have "\<bar>r - 1 / 2\<bar> \<le> 1 / 2" by arith
  then have a: "\<bar>r - 0.5\<bar> \<le> 1 / 2" by simp
  from rounded_size [OF e(2) a] have s: "\<bar>s\<bar> \<le> 1 / 2 * (1 + u)"
    by (simp add: s_def)
  have "\<bar>0.01 :: real\<bar> \<le> 1 / 100" by simp
  from rounded_size [OF e(3) this] have k: "\<bar>k\<bar> \<le> 1 / 100 * (1 + u)"
    by (simp add: k_def)
  have "\<bar>s\<bar> * \<bar>k\<bar> \<le> (1 / 2 * (1 + u)) * (1 / 100 * (1 + u))"
    using s k by (intro mult_mono) (simp_all add: u_def)
  then have sk: "\<bar>s * k\<bar> \<le> (1 / 2 * (1 + u)) * (1 / 100 * (1 + u))"
    by (simp add: abs_mult)
  from rounded_size [OF e(4) sk] have p: "\<bar>p\<bar> \<le> (1 / 2 * (1 + u)) * (1 / 100 * (1 + u)) * (1 + u)"
    by (simp add: p_def)
  have ax: "\<bar>x\<bar> \<le> 100" using x by simp
  from rounded_error [OF e(1) ax] have xd: "\<bar>xd - x\<bar> \<le> 100 * u"
    by (simp add: xd_def)
  have y: "\<bar>xd + p\<bar> \<le> 100 + 100 * u + (1 / 2 * (1 + u)) * (1 / 100 * (1 + u)) * (1 + u)"
    using xd p ax by arith
  from rounded_error [OF e(5) y]
  have res: "\<bar>rounded (e_add \<rho>) (xd + p) - (xd + p)\<bar>
      \<le> (100 + 100 * u + (1 / 2 * (1 + u)) * (1 / 100 * (1 + u)) * (1 + u)) * u" .
  have j: "jitter x r \<rho> = rounded (e_add \<rho>) (xd + p)"
    by (simp add: jitter_def xd_def p_def s_def k_def)
  have "\<bar>jitter x r \<rho> - x\<bar>
      \<le> (100 + 100 * u + (1 / 2 * (1 + u)) * (1 / 100 * (1 + u)) * (1 + u)) * u
        + 100 * u + (1 / 2 * (1 + u)) * (1 / 100 * (1 + u)) * (1 + u)"
    unfolding j using res xd p by arith
  also have "\<dots> \<le> jitterRadius + roundingAllowance"
    by (simp add: u_def jitterRadius_def roundingAllowance_def)
  finally have literal: "\<bar>jitter x r \<rho> - x\<bar> \<le> jitterRadius + roundingAllowance" .
  have "\<bar>jitter x r \<rho> - xd\<bar>
      \<le> (100 + 100 * u + (1 / 2 * (1 + u)) * (1 / 100 * (1 + u)) * (1 + u)) * u
        + (1 / 2 * (1 + u)) * (1 / 100 * (1 + u)) * (1 + u)"
    unfolding j using res p by arith
  also have "\<dots> \<le> jitterRadius + roundingAllowance"
    by (simp add: u_def jitterRadius_def roundingAllowance_def)
  finally have "\<bar>jitter x r \<rho> - xd\<bar> \<le> jitterRadius + roundingAllowance" .
  with literal show ?thesis by (simp add: xd_def)
qed

text \<open>
  The allowance is needed: under an admissible rounding of the sum, the latitude drawn
  for Bangalore at a draw of zero is farther than the radius from the entry.
\<close>

lemma rounding_can_exceed_radius:
  "rounding_ok (noRounding\<lparr>e_add := - unitRoundoff\<rparr>) \<and> unit_draw 0 \<and>
   jitterRadius < \<bar>jitter 12.9716 0 (noRounding\<lparr>e_add := - unitRoundoff\<rparr>) - 12.9716\<bar>"
  by (simp add: rounding_ok_def noRounding_def unitRoundoff_def unit_draw_def jitter_def
      rounded_def jitterRadius_def)

lemma getRandomCoordinatesForCity_near:
  assumes "unit_draw r1" and "unit_draw r2" and "rounding_ok \<rho>1" and "rounding_ok \<rho>2"
    and "coordsOrMumbai cityName = Some c"
  shows "\<exists>p. getRandomCoordinatesForCity cityName r1 r2 \<rho>1 \<rho>2 = Some p \<and>
             \<bar>lat p - lat c\<bar> \<le> jitterRadius + roundingAllowance \<and>
             \<bar>lng p - lng c\<bar> \<le> jitterRadius + roundingAllowance \<and>
             \<bar>lat p - rounded (e_entry \<rho>1) (lat c)\<bar> \<le> jitterRadius + roundingAllowance \<and>
             \<bar>lng p - rounded (e_entry \<rho>2) (lng c)\<bar> \<le> jitterRadius + roundingAllowance"
proof -
  from coordsOrMumbai_range [OF assms(5)]
  have "0 \<le> lat c" "lat c \<le> 100" "0 \<le> lng c" "lng c \<le> 100" by simp_all
  with jitter_bound [OF assms(1,3), of "lat c"] jitter_bound [OF assms(2,4), of "lng c"] assms(5)
  show ?thesis by (simp add: getRandomCoordinatesForCity_def)
qed

text \<open>The generator always returns a profile, of a record of the IP table.\<close>

lemma generateIndianIPData_Some:
  assumes "ip_draws_ok d"
  shows "\<exists>p. generateIndianIPData d = Some p \<and> entry p \<in> set indianIPData"
proof -
  from assms have dr: "unit_draw (d_record d)"
    by (simp add: ip_draws_ok_def)
  from getRandomElement_Some [OF dr indianIPData_nonempty]
  obtain e where e: "getRandomElement indianIPData (d_record d) = Some e" "e \<in> set indianIPData"
    by blast
  obtain c where c: "coordsOrMumbai (city e) = Some c"
    using coordsOrMumbai_Some by blast
  show ?thesis
    using e c by (simp add: generateIndianIPData_def getRandomCoordinatesForCity_def)
qed

lemma generateIndianIPData_near:
  assumes "ip_draws_ok d" and "ip_rounding_ok d"
  shows "\<exists>p c. generateIndianIPData d = Some p \<and>
               entry p \<in> set indianIPData \<and>
               coordsOrMumbai (city (entry p)) = Some c \<and>
               \<bar>latitude p - lat c\<bar> \<le> jitterRadius + roundingAllowance \<and>
               \<bar>longitude p - lng c\<bar> \<le> jitterRadius + roundingAllowance \<and>
               \<bar>latitude p - rounded (e_entry (d_round_lat1 d)) (lat c)\<bar>
                 \<le> jitterRadius + roundingAllowance \<and>
               \<bar>longitude p - rounded (e_entry (d_round_lng2 d)) (lng c)\<bar>
                 \<le> jitterRadius + roundingAllowance"
proof -
  from assms have dr: "unit_draw (d_record d)" and d1: "unit_draw (d_lat1 d)"
    and d2: "unit_draw (d_lng1 d)" and d3: "unit_draw (d_lat2 d)" and d4: "unit_draw (d_lng2 d)"
    and r1: "rounding_ok (d_round_lat1 d)" and r2: "rounding_ok (d_round_lng1 d)"
    and r3: "rounding_ok (d_round_lat2 d)" and r4: "rounding_ok (d_round_lng2 d)"
    by (simp_all add: ip_draws_ok_def ip_rounding_ok_def)
  from getRandomElement_Some [OF dr indianIPData_nonempty]
  obtain e where e: "getRandomElement indianIPData (d_record d) = Some e" "e \<in> set indianIPData"
    by blast
  obtain c where c: "coordsOrMumbai (city e) = Some c"
    using coordsOrMumbai_Some by blast
  from getRandomCoordinatesForCity_near [OF d1 d2 r1 r2 c]
  obtain p1 where p1: "getRandomCoordinatesForCity (city e) (d_lat1 d) (d_lng1 d)
      (d_round_lat1 d) (d_round_lng1 d) = Some p1"
    "\<bar>lat p1 - lat c\<bar> \<le> jitterRadius + roundingAllowance"
    "\<bar>lat p1 - rounded (e_entry (d_round_lat1 d)) (lat c)\<bar> \<le> jitterRadius + roundingAllowance"
    by (elim exE conjE)
  from getRandomCoordinatesForCity_near [OF d3 d4 r3 r4 c]
  obtain p2 where p2: "getRandomCoordinatesForCity (city e) (d_lat2 d) (d_lng2 d)
      (d_round_lat2 d) (d_round_lng2 d) = Some p2"
    "\<bar>lng p2 - lng c\<bar> \<le> jitterRadius + roundingAllowance"
    "\<bar>lng p2 - rounded (e_entry (d_round_lng2 d)) (lng c)\<bar> \<le> jitterRadius + roundingAllowance"
    by (elim exE conjE)
  show ?thesis
    using e c p1 p2 by (simp add: generateIndianIPData_def)
qed

text \<open>
  Claim C5, as amended. For every outcome of the draws and of the rounding of the double
  operations, \<^verbatim>\<open>generateIndianIPData\<close> returns a profile of a record of the IP table
  whose latitude and longitude each lie within the jitter radius (0.005 degrees) plus
  the rounding allowance (one part in a million millions of a degree) of the point
  \<open>coordsOrMumbai\<close> gives for the profile's city: the city's own entry of the coordinate
  table when it has one, and the entry of Mumbai when it has none. The distance is the
  same whether the entry is read as the decimal literal of the table or as the double
  that the literal denotes.
\<close>

theorem coordinates_within_jitter_of_lookup:
  assumes "ip_draws_ok d" and "ip_rounding_ok d"
  shows "\<exists>p c. generateIndianIPData d = Some p \<and>
               entry p \<in> set indianIPData \<and>
               coordsOrMumbai (city (entry p)) = Some c \<and>
               (canonicalCoords (city (entry p)) = None \<longrightarrow>
                  canonicalCoords ''Mumbai'' = Some c) \<and>
               (canonicalCoords (city (entry p)) \<noteq> None \<longrightarrow>
                  canonicalCoords (city (entry p)) = Some c) \<and>
               \<bar>latitude p - lat c\<bar> \<le> jitterRadius + roundingAllowance \<and>
               \<bar>longitude p - lng c\<bar> \<le> jitterRadius + roundingAllowance \<and>
               \<bar>latitude p - rounded (e_entry (d_round_lat1 d)) (lat c)\<bar>
                 \<le> jitterRadius + roundingAllowance \<and>
               \<bar>longitude p - rounded (e_entry (d_round_lng2 d)) (lng c)\<bar>
                 \<le> jitterRadius + roundingAllowance"
proof -
  from generateIndianIPData_near [OF assms] obtain p c where
    pc: "generateIndianIPData d = Some p" "entry p \<in> set indianIPData"
      "coordsOrMumbai (city (entry p)) = Some c"
      "\<bar>latitude p - lat c\<bar> \<le> jitterRadius + roundingAllowance"
      "\<bar>longitude p - lng c\<bar> \<le> jitterRadius + roundingAllowance"
      "\<bar>latitude p - rounded (e_entry (d_round_lat1 d)) (lat c)\<bar>
         \<le> jitterRadius + roundingAllowance"
      "\<bar>longitude p - rounded (e_entry (d_round_lng2 d)) (lng c)\<bar>
         \<le> jitterRadius + roundingAllowance"
    by (elim exE conjE)
  from pc(3) have "canonicalCoords (city (entry p)) = None \<longrightarrow>
      canonicalCoords ''Mumbai'' = Some c"
    and "canonicalCoords (city (entry p)) \<noteq> None \<longrightarrow> canonicalCoords (city (entry p)) = Some c"
    by (auto simp: coordsOrMumbai_def split: option.splits)
  with pc show ?thesis
    by (intro exI [of _ p] exI [of _ c]) simp
qed

lemma shimla_entry:
  "getRandomElement indianIPData (153 / 164) =
     Some \<lparr>ip = ''103.89.136.'', isp = ''BSNL Himachal'', city = ''Shimla'',
           state = ''Himachal Pradesh'', pincode = ''171001'', area = ''The Mall''\<rparr>"
  by (simp add: getRandomElement_def indianIPData_def)

lemma shimla_profile:
  "generateIndianIPData shimla_draws =
     Some \<lparr>entry = \<lparr>ip = ''103.89.136.'', isp = ''BSNL Himachal'', city = ''Shimla'',
           state = ''Himachal Pradesh'', pincode = ''171001'', area = ''The Mall''\<rparr>,
           lastOctet = 1, country = ''India'', countryCode = ''IN'',
           latitude = 19.0760, longitude = 72.8777\<rparr>"
  by (simp add: generateIndianIPData_def shimla_draws_def shimla_entry
      getRandomCoordinatesForCity_def coordsOrMumbai_def canonical_Shimla canonical_Mumbai
      jitter_def rounded_def noRounding_def)

text \<open>The profile of the Shimla record, whatever the rounding.\<close>

lemma shimla_profile_rounded:
  "generateIndianIPData (shimla_draws\<lparr>d_round_lat1 := \<rho>1, d_round_lng1 := \<rho>2,
      d_round_lat2 := \<rho>3, d_round_lng2 := \<rho>4\<rparr>) =
     Some \<lparr>entry = \<lparr>ip = ''103.89.136.'', isp = ''BSNL Himachal'', city = ''Shimla'',
           state = ''Himachal Pradesh'', pincode = ''171001'', area = ''The Mall''\<rparr>,
           lastOctet = 1, country = ''India'', countryCode = ''IN'',
           latitude = jitter 19.0760 (1 / 2) \<rho>1, longitude = jitter 72.8777 (1 / 2) \<rho>4\<rparr>"
  by (simp add: generateIndianIPData_def shimla_draws_def shimla_entry
      getRandomCoordinatesForCity_def coordsOrMumbai_def canonical_Shimla canonical_Mumbai)

text \<open>
  Claim C5 as stated fails. The IP table holds a record for Shimla, the coordinate table
  has no entry for Shimla, and the profile generated for that record carries the
  coordinates of Mumbai: exactly when nothing is rounded, and as the jitter of Mumbai's
  entry under any rounding.
\<close>

theorem shimla_coordinates_counterexample:
  "map_option city (map_option entry (generateIndianIPData shimla_draws)) = Some ''Shimla'' \<and>
   canonicalCoords ''Shimla'' = None \<and>
   map_option latitude (generateIndianIPData shimla_draws) = Some 19.0760 \<and>
   map_option longitude (generateIndianIPData shimla_draws) = Some 72.8777 \<and>
   \<not> withinJitterOfOwnCity (the (generateIndianIPData shimla_draws)) \<and>
   (\<forall>\<rho>1 \<rho>2 \<rho>3 \<rho>4.
      map_option (\<lambda>p. (city (entry p), latitude p, longitude p))
        (generateIndianIPData (shimla_draws\<lparr>d_round_lat1 := \<rho>1, d_round_lng1 := \<rho>2,
           d_round_lat2 := \<rho>3, d_round_lng2 := \<rho>4\<rparr>)) =
        Some (''Shimla'', jitter 19.0760 (1 / 2) \<rho>1, jitter 72.8777 (1 / 2) \<rho>4) \<and>
      \<not> withinJitterOfOwnCity
          (the (generateIndianIPData (shimla_draws\<lparr>d_round_lat1 := \<rho>1, d_round_lng1 := \<rho>2,
             d_round_lat2 := \<rho>3, d_round_lng2 := \<rho>4\<rparr>))))"
  by (simp add: shimla_profile shimla_profile_rounded canonical_Shimla withinJitterOfOwnCity_def)

theorem coordinates_within_jitter_witness:
  "ip_draws_ok shimla_draws \<and> ip_rounding_ok shimla_draws \<and>
   canonicalCoords ''Shimla'' = None \<and>
   (\<exists>p c. generateIndianIPData shimla_draws = Some p \<and>
               city (entry p) = ''Shimla'' \<and>
               canonicalCoords ''Mumbai'' = Some c \<and>
               \<bar>latitude p - lat c\<bar> \<le> jitterRadius + roundingAllowance \<and>
               \<bar>longitude p - lng c\<bar> \<le> jitterRadius + roundingAllowance)"
proof -
  have ok: "ip_draws_ok shimla_draws"
    by (simp add: ip_draws_ok_def shimla_draws_def unit_draw_def)
  have rok: "ip_rounding_ok shimla_draws"
    by (simp add: ip_rounding_ok_def shimla_draws_def rounding_ok_def noRounding_def
        unitRoundoff_def)
  from coordinates_within_jitter_of_lookup [OF ok rok] obtain p c where
    pc: "generateIndianIPData shimla_draws = Some p"
      "canonicalCoords (city (entry p)) = None \<longrightarrow> canonicalCoords ''Mumbai'' = Some c"
      "\<bar>latitude p - lat c\<bar> \<le> jitterRadius + roundingAllowance"
      "\<bar>longitude p - lng c\<bar> \<le> jitterRadius + roundingAllowance"
    by (elim exE conjE)
  from pc(1) have city: "city (entry p) = ''Shimla''"
    by (auto simp: shimla_profile)
  with pc(2) canonical_Shimla have "canonicalCoords ''Mumbai'' = Some c" by simp
  with ok rok pc city canonical_Shimla show ?thesis
    by (intro conjI exI [of _ p] exI [of _ c]) simp_all
qed

lemma filteredConnections_nonempty:
  "filteredConnections Case_tier1 \<noteq> []" "filteredConnections Case_tier2 \<noteq> []"
  "filteredConnections Case_tier3 \<noteq> []"
  by (simp_all add: connectionTypes_def)

lemma getLocationTier_cases:
  "getLocationTier cityName = ''tier1'' \<or> getLocationTier cityName = ''tier2'' \<or>
   getLocationTier cityName = ''tier3''"
  by (simp add: getLocationTier_def)

lemma tier1_Mumbai: "getLocationTier ''Mumbai'' = ''tier1''"
  by (simp add: getLocationTier_def tier1Cities_def)

lemma getRandomConnectionType_tier:
  assumes "unit_draw r"
  shows "\<exists>c. getRandomConnectionType (getLocationTier cityName) r = Some c \<and>
             c \<in> set (filteredConnections (switch_locationTier (getLocationTier cityName)))"
proof -
  let ?k = "switch_locationTier (getLocationTier cityName)"
  have "?k = Case_tier1 \<or> ?k = Case_tier2 \<or> ?k = Case_tier3"
    by (simp add: getLocationTier_def switch_locationTier_def)
  then have "filteredConnections ?k \<noteq> []"
    using filteredConnections_nonempty by metis
  from getRandomElement_Some [OF assms this] show ?thesis
    by (simp add: getRandomConnectionType_def)
qed

text \<open>
  Claim C6. For every outcome of the draws, \<^verbatim>\<open>setupPageFingerprint\<close> returns a profile
  whose tier is the tier of its city and whose connection descriptor has a type allowed
  for that tier and a downlink at or above the tier's floor (5 for tier1, 2 for tier2,
  none for tier3). A profile for Mumbai is tier1: its type is one of fiber, cable, 5g,
  4g, wifi and its downlink is at least 5.
\<close>

theorem connection_respects_tier:
  assumes "ip_draws_ok d" and "unit_draw r"
  shows "\<exists>fp. setupPageFingerprint d r = Some fp \<and>
           fp_locationTier fp = getLocationTier (city (entry (fp_ipData fp))) \<and>
           (fp_locationTier fp = ''tier1'' \<longrightarrow>
              conn_type (fp_connectionInfo fp) \<in> {''fiber'', ''cable'', ''5g'', ''4g'', ''wifi''} \<and>
              5 \<le> downlink (fp_connectionInfo fp)) \<and>
           (fp_locationTier fp = ''tier2'' \<longrightarrow>
              conn_type (fp_connectionInfo fp) \<in> {''fiber'', ''cable'', ''4g'', ''3g'', ''wifi'', ''dsl''} \<and>
              2 \<le> downlink (fp_connectionInfo fp)) \<and>
           (fp_locationTier fp = ''tier3'' \<longrightarrow>
              conn_type (fp_connectionInfo fp) \<in> {''4g'', ''3g'', ''2g'', ''wifi'', ''dsl''}) \<and>
           (city (entry (fp_ipData fp)) = ''Mumbai'' \<longrightarrow>
              conn_type (fp_connectionInfo fp) \<in> {''fiber'', ''cable'', ''5g'', ''4g'', ''wifi''} \<and>
              5 \<le> downlink (fp_connectionInfo fp))"
proof -
  from generateIndianIPData_Some [OF assms(1)]
  obtain p where p: "generateIndianIPData d = Some p" by blast
  let ?t = "getLocationTier (city (entry p))"
  from getRandomConnectionType_tier [OF assms(2), of "city (entry p)"]
  obtain c where c: "getRandomConnectionType ?t r = Some c"
    "c \<in> set (filteredConnections (switch_locationTier ?t))" by blast
  have fp: "setupPageFingerprint d r =
      Some \<lparr>fp_ipData = p, fp_connectionInfo = c, fp_locationTier = ?t\<rparr>"
    using p c(1) by (simp add: setupPageFingerprint_def)
  have t1: "?t = ''tier1'' \<Longrightarrow>
      conn_type c \<in> {''fiber'', ''cable'', ''5g'', ''4g'', ''wifi''} \<and> 5 \<le> downlink c"
    using c(2) by (simp add: switch_locationTier_def)
  have t2: "?t = ''tier2'' \<Longrightarrow>
      conn_type c \<in> {''fiber'', ''cable'', ''4g'', ''3g'', ''wifi'', ''dsl''} \<and> 2 \<le> downlink c"
    using c(2) by (simp add: switch_locationTier_def)
  have t3: "?t = ''tier3'' \<Longrightarrow> conn_type c \<in> {''4g'', ''3g'', ''2g'', ''wifi'', ''dsl''}"
    using c(2) by (simp add: switch_locationTier_def)
  have mum: "city (entry p) = ''Mumbai'' \<Longrightarrow> ?t = ''tier1''"
    by (simp add: tier1_Mumbai)
  show ?thesis
    using fp t1 t2 t3 mum by simp
qed

theorem connection_respects_tier_witness:
  "ip_draws_ok mumbai_draws \<and> unit_draw 0 \<and>
   map_option fp_locationTier (setupPageFingerprint mumbai_draws 0) = Some ''tier1'' \<and>
   map_option fp_connectionInfo (setupPageFingerprint mumbai_draws 0) =
     Some \<lparr>conn_type = ''fiber'', downlink = 100, effectiveType = ''4g'', rtt = 10,
           description = ''Fiber Broadband 100Mbps''\<rparr> \<and>
   (\<exists>fp. setupPageFingerprint mumbai_draws 0 = Some fp \<and>
      city (entry (fp_ipData fp)) = ''Mumbai'' \<and>
      conn_type (fp_connectionInfo fp) \<in> {''fiber'', ''cable'', ''5g'', ''4g'', ''wifi''} \<and>
      5 \<le> downlink (fp_connectionInfo fp))"
proof -
  have ok: "ip_draws_ok mumbai_draws"
    by (simp add: ip_draws_ok_def mumbai_draws_def unit_draw_def)
  have u: "unit_draw 0"
    by (simp add: unit_draw_def)
  have e: "getRandomElement indianIPData 0 =
      Some \<lparr>ip = ''203.122.58.'', isp = ''Bharti Airtel Ltd'', city = ''Mumbai'',
            state = ''Maharashtra'', pincode = ''400001'', area = ''Fort''\<rparr>"
    by (simp add: getRandomElement_def indianIPData_def)
  have g: "map_option (city \<circ> entry) (generateIndianIPData mumbai_draws) = Some ''Mumbai''"
    by (simp add: generateIndianIPData_def mumbai_draws_def e getRandomCoordinatesForCity_def
        coordsOrMumbai_def canonical_Mumbai)
  have c: "getRandomConnectionType ''tier1'' 0 =
      Some \<lparr>conn_type = ''fiber'', downlink = 100, effectiveType = ''4g'', rtt = 10,
            description = ''Fiber Broadband 100Mbps''\<rparr>"
    by (simp add: getRandomConnectionType_def switch_locationTier_def getRandomElement_def
        connectionTypes_def)
  from connection_respects_tier [OF ok u] obtain fp where
    fp: "setupPageFingerprint mumbai_draws 0 = Some fp"
      "fp_locationTier fp = getLocationTier (city (entry (fp_ipData fp)))"
      "city (entry (fp_ipData fp)) = ''Mumbai'' \<longrightarrow>
         conn_type (fp_connectionInfo fp) \<in> {''fiber'', ''cable'', ''5g'', ''4g'', ''wifi''} \<and>
         5 \<le> downlink (fp_connectionInfo fp)"
    by blast
  have city: "city (entry (fp_ipData fp)) = ''Mumbai''"
    using fp(1) g by (auto simp: setupPageFingerprint_def Let_def split: option.splits)
  have info: "fp_connectionInfo fp = \<lparr>conn_type = ''fiber'', downlink = 100, effectiveType = ''4g'',
      rtt = 10, description = ''Fiber Broadband 100Mbps''\<rparr>"
    using fp(1) g c by (auto simp: setupPageFingerprint_def Let_def tier1_Mumbai split: option.splits)
  show ?thesis
    using ok u fp city info by (simp add: tier1_Mumbai)
qed

text \<open>
  Claim C10. \<^verbatim>\<open>getLocationTier\<close> returns tier1, tier2 or tier3 and never rural, so the
  switch of \<^verbatim>\<open>getRandomConnectionType\<close> takes one of its first three cases on a tier that
  \<^verbatim>\<open>getLocationTier\<close> returned; every generated profile has such a tier and a
  connection drawn for it, not through the rural case.
\<close>

theorem getLocationTier_never_rural:
  "getLocationTier cityName \<in> {''tier1'', ''tier2'', ''tier3''} \<and>
   getLocationTier cityName \<noteq> ''rural'' \<and>
   switch_locationTier (getLocationTier cityName) \<in> {Case_tier1, Case_tier2, Case_tier3} \<and>
   (\<forall>d r fp. setupPageFingerprint d r = Some fp \<longrightarrow>
      fp_locationTier fp \<in> {''tier1'', ''tier2'', ''tier3''} \<and>
      switch_locationTier (fp_locationTier fp) \<noteq> Case_rural \<and>
      (\<exists>r'. Some (fp_connectionInfo fp) = getRandomConnectionType (fp_locationTier fp) r'))"
proof -
  have a: "\<And>c. getLocationTier c \<in> {''tier1'', ''tier2'', ''tier3''}"
    by (simp add: getLocationTier_def)
  have b: "\<And>c. switch_locationTier (getLocationTier c) \<in> {Case_tier1, Case_tier2, Case_tier3}"
    by (simp add: getLocationTier_def switch_locationTier_def)
  have c: "\<And>d r fp. setupPageFingerprint d r = Some fp \<Longrightarrow>
      fp_locationTier fp = getLocationTier (city (entry (fp_ipData fp))) \<and>
      Some (fp_connectionInfo fp) = getRandomConnectionType (fp_locationTier fp) r"
    by (auto simp: setupPageFingerprint_def Let_def split: option.splits)
  have d: "\<And>c. getLocationTier c \<noteq> ''rural''"
    by (simp add: getLocationTier_def)
  have e: "\<And>c. switch_locationTier (getLocationTier c) \<noteq> Case_rural"
    by (simp add: getLocationTier_def switch_locationTier_def)
  show ?thesis
  proof (intro conjI allI impI)
    show "getLocationTier cityName \<in> {''tier1'', ''tier2'', ''tier3''}" by (rule a)
    show "getLocationTier cityName \<noteq> ''rural''" by (rule d)
    show "switch_locationTier (getLocationTier cityName) \<in> {Case_tier1, Case_tier2, Case_tier3}"
      by (rule b)
  next
    fix dd r fp assume h: "setupPageFingerprint dd r = Some fp"
    from c [OF h] show "fp_locationTier fp \<in> {''tier1'', ''tier2'', ''tier3''}"
      using a by simp
    from c [OF h] show "switch_locationTier (fp_locationTier fp) \<noteq> Case_rural"
      using e by simp
    from c [OF h] show "\<exists>r'. Some (fp_connectionInfo fp) = getRandomConnectionType (fp_locationTier fp) r'"
      by blast
  qed
qed

theorem getLocationTier_never_rural_witness:
  "map_option fp_locationTier (setupPageFingerprint shimla_draws 0) = Some ''tier3'' \<and>
   switch_locationTier ''tier3'' = Case_tier3 \<and>
   map_option fp_connectionInfo (setupPageFingerprint shimla_draws 0)
     = getRandomConnectionType ''tier3'' 0 \<and>
   getRandomConnectionType ''tier3'' 0 =
     Some \<lparr>conn_type = ''dsl'', downlink = 8, effectiveType = ''4g'', rtt = 40,
           description = ''DSL Broadband 8Mbps''\<rparr>"
proof -
  have t: "getLocationTier ''Shimla'' = ''tier3''"
    by (simp add: getLocationTier_def tier1Cities_def tier2Cities_def)
  have c: "getRandomConnectionType ''tier3'' 0 =
     Some \<lparr>conn_type = ''dsl'', downlink = 8, effectiveType = ''4g'', rtt = 40,
           description = ''DSL Broadband 8Mbps''\<rparr>"
    by (simp add: getRandomConnectionType_def switch_locationTier_def getRandomElement_def
        connectionTypes_def)
  have fp: "setupPageFingerprint shimla_draws 0 =
      Some \<lparr>fp_ipData = the (generateIndianIPData shimla_draws),
            fp_connectionInfo = the (getRandomConnectionType ''tier3'' 0),
            fp_locationTier = ''tier3''\<rparr>"
    by (simp add: setupPageFingerprint_def shimla_profile t c)
  from getLocationTier_never_rural [of "''Shimla''"] fp
  have "fp_locationTier (the (setupPageFingerprint shimla_draws 0)) \<in> {''tier1'', ''tier2'', ''tier3''}"
    by simp
  then show ?thesis
    using fp c by (simp add: switch_locationTier_def)
qed

section \<open>Properties of one session\<close>

lemmas worker_unfold =
  newWorker_def catchError_def enterFinally_def pageClosed_def browserClosed_def
  incrementClickCounter_def addClickRecord_def Let_def incrementClickCounter_pause_def
  generateCSVReport_settled_def addClickRecord_settled_def clickDataOf_def browsed_def

text \<open>
  Where a session run by itself ends: settled, each handle closed if and only if it was
  acquired.
\<close>

lemma createClickWorker_handles:
  "w_pc (fst (createClickWorker env u i t)) = Settled \<and>
   w_browser (fst (createClickWorker env u i t)) =
     (if launch env = Resolved then closeResult (closeBrowser env) else NotAcquired) \<and>
   w_page (fst (createClickWorker env u i t)) =
     (if launch env = Resolved \<and> newPage env = Resolved then closeResult (closePage env)
      else NotAcquired)"
  by (auto simp: createClickWorker_def createClickWorker_step_def worker_unfold
      split: outcome.splits if_splits)

lemma createTabWorker_handles:
  "w_pc (fst (createTabWorker m env u i t)) = Settled \<and>
   w_browser (fst (createTabWorker m env u i t)) =
     (if launch env = Resolved then closeResult (closeBrowser env) else NotAcquired) \<and>
   w_page (fst (createTabWorker m env u i t)) =
     (if launch env = Resolved \<and> newPage env = Resolved then closeResult (closePage env)
      else NotAcquired)"
  by (auto simp: createTabWorker_def createTabWorker_step_def worker_unfold
      split: outcome.splits if_splits)

lemma closeResult_not_Open: "closeResult out \<noteq> Open"
  by (cases out) (simp_all add: closeResult_def)


lemma createTabWorker_records:
  "clickReportData (snd (createTabWorker m env u i t)) =
     clickReportData t @
       (if browsed env
        then [\<lparr>tabNumber = i + 1, url = u, clickNumber = globalClickCounter t + 1\<rparr>] else []) \<and>
   globalClickCounter (snd (createTabWorker m env u i t)) =
     globalClickCounter t + (if browsed env then 1 else 0)"
  by (auto simp: createTabWorker_def createTabWorker_step_def worker_unfold
      split: outcome.splits if_splits)

text \<open>The session in which the periodic report cannot be written.\<close>

lemma report_failure:
  assumes "(globalClickCounter t + 1) mod 25 = 0" and "browsed env"
    and "appendFile env = Resolved" and "writeFile env = Rejected"
  shows "w_pc (fst (createClickWorker env u i t)) = Settled \<and>
         \<not> w_completed (fst (createClickWorker env u i t)) \<and>
         console (snd (createClickWorker env u i t)) =
           console t @ [CSV_ERROR_report, ERROR_failed (i + 1)] \<and>
         clickReportData (snd (createClickWorker env u i t)) =
           clickReportData t @
             [\<lparr>tabNumber = i + 1, url = u, clickNumber = globalClickCounter t + 1\<rparr>] \<and>
         globalClickCounter (snd (createClickWorker env u i t)) = globalClickCounter t + 1 \<and>
         reports (snd (createClickWorker env u i t)) = reports t"
  using assms
  by (auto simp: createClickWorker_def createClickWorker_step_def worker_unfold
      split: outcome.splits if_splits)

text \<open>The session in which the row cannot be appended to the CSV file.\<close>

lemma append_failure:
  assumes "browsed env" and "appendFile env = Rejected" and "writeFile env = Resolved"
  shows "w_completed (fst (createClickWorker env u i t)) \<and>
         clickReportData (snd (createClickWorker env u i t)) =
           clickReportData t @
             [\<lparr>tabNumber = i + 1, url = u, clickNumber = globalClickCounter t + 1\<rparr>] \<and>
         globalClickCounter (snd (createClickWorker env u i t)) = globalClickCounter t + 1"
  using assms
  by (auto simp: createClickWorker_def createClickWorker_step_def worker_unfold
      split: outcome.splits if_splits)

lemma completed_when_all_resolved:
  "browsed env \<Longrightarrow> writeFile env = Resolved \<Longrightarrow>
   w_completed (fst (createClickWorker env u i t))"
  by (auto simp: createClickWorker_def createClickWorker_step_def worker_unfold
      split: outcome.splits if_splits)



lemma after24:
  "(globalClickCounter after24Clicks + 1) mod 25 = 0 \<and> browsed reportWriteFails \<and>
   appendFile reportWriteFails = Resolved \<and> writeFile reportWriteFails = Rejected"
  by (simp add: after24Clicks_def reportWriteFails_def allResolved_def browsed_def)

text \<open>
  The handles at each suspension point of \<^verbatim>\<open>createClickWorker\<close>, whatever else runs
  between its stretches.
\<close>

lemma afterIncrement_resume_handles:
  assumes "afterIncrement w (incrementClickCounter_resume out p t) = (w', t')"
    and "w_browser w = Open" and "w_page w = Open"
  shows "w_browser w' = Open \<and> w_page w' = Open \<and>
         (w_pc w' = ClosingPage \<or> w_pc w' = Delaying \<or> (\<exists>q. w_pc w' = Incrementing q))"
  using assms
  by (cases p)
    (auto simp: worker_unfold split: if_splits outcome.splits)

lemma createClickWorker_step_handles:
  assumes "createClickWorker_step out w t = (w', t')" and "handlesOk w"
  shows "handlesOk w'"
proof (cases "w_pc w")
  case (Incrementing p)
  with assms afterIncrement_resume_handles [of w out p t w' t']
  show ?thesis by (auto simp: createClickWorker_step_def handlesOk_def)
qed (use assms in \<open>auto simp: createClickWorker_step_def worker_unfold handlesOk_def closeResult_def
      split: outcome.splits if_splits\<close>)

text \<open>The same for \<^verbatim>\<open>createTabWorker\<close>.\<close>

lemma afterIncrement_tab_resume_handles:
  assumes "afterIncrement_tab w (incrementClickCounter_bounded_resume m out p t) = (w', t')"
    and "w_browser w = Open" and "w_page w = Open"
  shows "w_browser w' = Open \<and> w_page w' = Open \<and>
         (w_pc w' = ClosingPage \<or> (\<exists>q. w_pc w' = Incrementing q))"
  using assms
  by (cases p)
    (auto simp: worker_unfold split: if_splits outcome.splits)

lemma createTabWorker_step_handles:
  assumes "createTabWorker_step m out w t = (w', t')" and "handlesOk w"
  shows "handlesOk w'"
proof (cases "w_pc w")
  case (Incrementing p)
  with assms afterIncrement_tab_resume_handles [of w m out p t w' t']
  show ?thesis by (auto simp: createTabWorker_step_def handlesOk_def)
qed (use assms in \<open>auto simp: createTabWorker_step_def worker_unfold handlesOk_def closeResult_def
      split: outcome.splits if_splits\<close>)

subsection \<open>The record of a session\<close>








subsection \<open>The handles of a session\<close>

text \<open>
  Claim C9. A session of either worker, run from its launch to its end, settles with
  neither handle open, whatever rejects on the way and also when the click limit is
  reached: the browser's \<^verbatim>\<open>close\<close> has been called and awaited if and only if the launch
  resolved, and the page's if and only if the page was created (a \<^verbatim>\<open>close\<close> that rejects
  is swallowed). Stretch by stretch, whatever runs in between: a worker whose handles
  stand as \<open>handlesAt\<close> says for its suspension point is in such a state again after its
  next stretch, and at \<open>Settled\<close> that means neither handle is open.
\<close>

theorem handles_closed_on_every_path:
  "w_pc (fst (createClickWorker env u i t)) = Settled \<and>
   w_browser (fst (createClickWorker env u i t)) \<noteq> Open \<and>
   w_page (fst (createClickWorker env u i t)) \<noteq> Open \<and>
   w_browser (fst (createClickWorker env u i t)) =
     (if launch env = Resolved then closeResult (closeBrowser env) else NotAcquired) \<and>
   w_page (fst (createClickWorker env u i t)) =
     (if launch env = Resolved \<and> newPage env = Resolved then closeResult (closePage env)
      else NotAcquired) \<and>
   w_pc (fst (createTabWorker m env u i t)) = Settled \<and>
   w_browser (fst (createTabWorker m env u i t)) \<noteq> Open \<and>
   w_page (fst (createTabWorker m env u i t)) \<noteq> Open \<and>
   w_browser (fst (createTabWorker m env u i t)) =
     (if launch env = Resolved then closeResult (closeBrowser env) else NotAcquired) \<and>
   w_page (fst (createTabWorker m env u i t)) =
     (if launch env = Resolved \<and> newPage env = Resolved then closeResult (closePage env)
      else NotAcquired) \<and>
   (handlesOk w \<longrightarrow> handlesOk (fst (createClickWorker_step out w t)) \<and>
                     handlesOk (fst (createTabWorker_step m out w t)))"
proof -
  have "handlesOk w \<longrightarrow> handlesOk (fst (createClickWorker_step out w t)) \<and>
                     handlesOk (fst (createTabWorker_step m out w t))"
    using createClickWorker_step_handles [of out w t] createTabWorker_step_handles [of m out w t]
    by (metis prod.collapse)
  then show ?thesis
    using createClickWorker_handles [of env u i t] createTabWorker_handles [of m env u i t]
      closeResult_not_Open
    by simp
qed

theorem handles_closed_witness:
  "handlesOk (newWorker ''https://example.org/'' 0) \<and>
   handlesOk (fst (createTabWorker_step 2 Resolved (newWorker ''https://example.org/'' 0)
     initialTelemetry)) \<and>
   w_browser (fst (createTabWorker 2 navigationTimeout ''https://example.org/'' 0
     initialTelemetry)) = Closed \<and>
   w_page (fst (createTabWorker 2 navigationTimeout ''https://example.org/'' 0
     initialTelemetry)) = Closed \<and>
   w_browser (fst (createClickWorker launchCrash ''https://example.org/'' 0
     initialTelemetry)) = NotAcquired \<and>
   w_page (fst (createClickWorker launchCrash ''https://example.org/'' 0
     initialTelemetry)) = NotAcquired"
  using handles_closed_on_every_path
    [of navigationTimeout "''https://example.org/''" 0 initialTelemetry 2
      "newWorker ''https://example.org/'' 0" Resolved]
    handles_closed_on_every_path
    [of launchCrash "''https://example.org/''" 0 initialTelemetry 2
      "newWorker ''https://example.org/'' 0" Resolved]
  by (simp add: handlesOk_def newWorker_def navigationTimeout_def launchCrash_def
      allResolved_def closeResult_def)

subsection \<open>A report that cannot be written\<close>

text \<open>
  Claim C7 does not hold of the code. When the click counted is a multiple of 25 and
  the write of the periodic report rejects, \<^verbatim>\<open>generateCSVReport\<close> logs the error and throws
  it again, \<^verbatim>\<open>incrementClickCounter\<close> rejects, and the outer \<^verbatim>\<open>catch\<close> of
  \<^verbatim>\<open>createClickWorker\<close> takes over: the session is logged as failed and is not counted
  in \<^verbatim>\<open>completedClicks\<close>, although its record has been appended and the global counter
  incremented. The worker still settles, so the campaign goes on. (When only the append
  of the row rejects, \<open>append_failure\<close>, the session is counted.)
\<close>

theorem report_write_failure_fails_session:
  assumes "(globalClickCounter t + 1) mod 25 = 0" and "browsed env"
    and "appendFile env = Resolved" and "writeFile env = Rejected"
  shows "w_pc (fst (createClickWorker env u i t)) = Settled \<and>
         \<not> w_completed (fst (createClickWorker env u i t)) \<and>
         console (snd (createClickWorker env u i t)) =
           console t @ [CSV_ERROR_report, ERROR_failed (i + 1)] \<and>
         clickReportData (snd (createClickWorker env u i t)) =
           clickReportData t @
             [\<lparr>tabNumber = i + 1, url = u, clickNumber = globalClickCounter t + 1\<rparr>] \<and>
         globalClickCounter (snd (createClickWorker env u i t)) = globalClickCounter t + 1"
  using report_failure [OF assms, of u i] by simp

theorem report_write_failure_witness:
  "(globalClickCounter after24Clicks + 1) mod 25 = 0 \<and> browsed reportWriteFails \<and>
   appendFile reportWriteFails = Resolved \<and> writeFile reportWriteFails = Rejected \<and>
   \<not> w_completed (fst (createClickWorker reportWriteFails ''https://example.org/'' 0
     after24Clicks)) \<and>
   console (snd (createClickWorker reportWriteFails ''https://example.org/'' 0 after24Clicks)) =
     [CSV_ERROR_report, ERROR_failed 1] \<and>
   globalClickCounter (snd (createClickWorker reportWriteFails ''https://example.org/'' 0
     after24Clicks)) = 25"
  using report_write_failure_fails_session
    [of after24Clicks reportWriteFails "''https://example.org/''" 0] after24
  by (simp add: after24Clicks_def)

section \<open>Properties of the primary interaction\<close>

lemma submitLoop_firstSuccess:
  "submitLoop page sels = firstSuccess (attempt page) (map Submit sels)"
  by (induction sels) (simp_all split: option.split)

lemma fallbackLoop_firstSuccess:
  "fallbackLoop page sels = firstSuccess (attempt page) (map Fallback sels)"
  by (induction sels) (simp_all split: option.split)

lemma firstSuccess_append:
  "firstSuccess f (xs @ ys) =
     (case firstSuccess f xs of Some r \<Rightarrow> Some r | None \<Rightarrow> firstSuccess f ys)"
  by (induction xs) (simp_all split: option.split)

lemma primaryInteraction_firstSuccess:
  "primaryInteraction page = firstSuccess (attempt page) strategyOrder"
  by (simp add: primaryInteraction_def strategyOrder_def firstSuccess_append
      submitLoop_firstSuccess fallbackLoop_firstSuccess anyClickableLoop_def split: option.split)

lemma submitLoop_tab_firstSuccess:
  "submitLoop_tab page sels = firstSuccess (attempt_tab page) (map Submit sels)"
  by (induction sels) (simp_all split: option.split)

lemma primaryInteraction_tab_firstSuccess:
  "primaryInteraction_tab page = firstSuccess (attempt_tab page) strategyOrder_tab"
  by (simp add: primaryInteraction_tab_def strategyOrder_tab_def firstSuccess_append
      submitLoop_tab_firstSuccess split: option.split)

lemma firstSuccess_Some:
  "firstSuccess f ss = Some (s, e) \<Longrightarrow>
     \<exists>before after. ss = before @ s # after \<and> f s = Some e \<and> (\<forall>b \<in> set before. f b = None)"
proof (induction ss)
  case Nil
  then show ?case by simp
next
  case (Cons a ss)
  show ?case
  proof (cases "f a")
    case None
    with Cons.prems have "firstSuccess f ss = Some (s, e)" by simp
    from Cons.IH [OF this] obtain before after where
      h: "ss = before @ s # after" "f s = Some e" "\<forall>b \<in> set before. f b = None" by blast
    have "a # ss = (a # before) @ s # after" using h(1) by simp
    moreover have "\<forall>b \<in> set (a # before). f b = None" using h(3) None by simp
    ultimately show ?thesis using h(2) by blast
  next
    case (Some x)
    with Cons.prems have "a = s" "x = e" by simp_all
    then have "a # ss = [] @ s # ss" "f s = Some e" using Some by simp_all
    then show ?thesis by fastforce
  qed
qed

lemma firstSuccess_None:
  "firstSuccess f ss = None \<longleftrightarrow> (\<forall>s \<in> set ss. f s = None)"
  by (induction ss) (auto split: option.splits)

lemma clickFirstClickable_Some:
  "clickFirstClickable els = Some el \<Longrightarrow> el \<in> set els \<and> clickable el"
  by (induction els) (auto split: if_splits)

lemma clickFirst_Some:
  "clickFirst els = Some el \<Longrightarrow> el \<in> set els \<and> clickable el"
  by (cases els) (auto split: if_splits)

lemma clickByText_Some:
  "clickByText t els = Some el \<Longrightarrow> el \<in> set els \<and> clickable el"
  by (induction els) (auto split: if_splits)

lemma clickByText_tab_Some:
  "clickByText_tab t els = Some el \<Longrightarrow> el \<in> set els \<and> clickable el"
  by (induction els) (auto split: if_splits)

lemma attempt_Some:
  "attempt page st = Some el \<Longrightarrow> el \<in> set page \<and> clickable el"
proof (cases st)
  case (Submit sel)
  assume "attempt page st = Some el"
  with Submit show ?thesis
    by (auto simp: trySubmitSelector_def querySelectorAll_def
        dest: clickByText_Some clickFirstClickable_Some split: if_splits)
next
  case (Fallback sel)
  assume "attempt page st = Some el"
  with Fallback show ?thesis
    by (auto simp: querySelectorAll_def dest: clickFirstClickable_Some)
next
  case AnyClickable
  assume "attempt page st = Some el"
  with AnyClickable have "el \<in> set (take 3 (querySelectorAllGroup page anyClickableSelectors)) \<and> clickable el"
    by (auto dest: clickFirstClickable_Some)
  then show ?thesis
    by (auto simp: querySelectorAllGroup_def dest: in_set_takeD)
qed

lemma attempt_tab_Some:
  "attempt_tab page st = Some el \<Longrightarrow> el \<in> set page \<and> clickable el"
  by (cases st)
    (auto simp: trySubmitSelector_tab_def querySelectorAll_def querySelectorAllGroup_def
      dest: clickByText_tab_Some clickFirst_Some split: if_splits)

lemma strategyOrder_explicit:
  "strategyOrder =
     [Submit (TagAttrEq ''button'' ''type'' ''submit''),
      Submit (TagAttrEq ''input'' ''type'' ''submit''),
      Submit (Contains ''Send''), Submit (Contains ''Submit''), Submit (Contains ''Ask''),
      Submit (Contains ''Go''), Submit (Contains ''Enter''),
      Submit (ClassSel ''send-btn''), Submit (ClassSel ''submit-btn''),
      Submit (IdSel ''send''), Submit (IdSel ''submit''), Submit (IdSel ''send-btn''),
      Submit (Tag ''button''),
      Fallback (AttrIncludes ''onclick'' ''send''), Fallback (AttrIncludes ''onclick'' ''submit''),
      Fallback (AttrIncludes ''class'' ''send''), Fallback (AttrIncludes ''class'' ''submit''),
      Fallback (AttrIncludes ''id'' ''send''), Fallback (AttrIncludes ''id'' ''submit''),
      Fallback (TagAttrEq ''input'' ''type'' ''button''), Fallback (AttrEq ''role'' ''button''),
      AnyClickable]"
  by (simp add: strategyOrder_def submitSelectors_def fallbackSelectors_def)

lemma strategyOrder_tab_explicit:
  "strategyOrder_tab =
     [Submit (TagAttrEq ''button'' ''type'' ''submit''),
      Submit (TagAttrEq ''input'' ''type'' ''submit''),
      Submit (Contains ''Submit''), Submit (Contains ''Send''), Submit (Contains ''Ask''),
      Submit (Tag ''button''),
      Submit (ClassSel ''submit-btn''), Submit (ClassSel ''send-btn''),
      Submit (IdSel ''submit''), Submit (IdSel ''send-btn''),
      AnyClickable]"
  by (simp add: strategyOrder_tab_def submitSelectors_tab_def)

lemma heuristicPage_code:
  "primaryInteraction heuristicPage = Some (Submit (Tag ''button''), helloButton)"
  by (simp add: primaryInteraction_def submitSelectors_def trySubmitSelector_def
      querySelectorAll_def heuristicPage_def sendArea_def helloButton_def getAttribute_def
      classList_def isSpace_def toLowerCase_def lower_char_def trim_def)

lemma heuristicPage_claimed:
  "claimedInteraction heuristicPage = Some sendArea"
  by (simp add: claimedInteraction_def querySelectorAllGroup_def hasKeywordText_def
      heuristicPage_def sendArea_def helloButton_def getAttribute_def
      toLowerCase_def lower_char_def trim_def isSpace_def)

lemma heuristicPage_tab:
  "primaryInteraction_tab heuristicPage = Some (Submit (Tag ''button''), helloButton)"
  by (simp add: primaryInteraction_tab_def submitSelectors_tab_def trySubmitSelector_tab_def
      querySelectorAll_def heuristicPage_def sendArea_def helloButton_def getAttribute_def
      classList_def isSpace_def toLowerCase_def lower_char_def)

text \<open>
  Claim C8, as amended. In both variants the element clicked is the one yielded by the
  first strategy, in the order of the script's lists, whose attempt yields an element,
  and it is a clickable element of the page; no click is made (\<^verbatim>\<open>submitted\<close> stays false,
  the worker goes on) exactly when no strategy yields one. In \<^verbatim>\<open>createClickWorker\<close> the
  order is: the two submit-typed controls, the five button texts, five exact class and
  id selectors, any \<^verbatim>\<open>button\<close>, and only then the attribute heuristics,
  \<^verbatim>\<open>input[type="button"]\<close>, \<^verbatim>\<open>[role="button"]\<close> and the last resort. In \<^verbatim>\<open>createTabWorker\<close> it
  is: the two submit-typed controls, three button texts, any \<^verbatim>\<open>button\<close>, four exact
  selectors and the last resort, with no attribute heuristics.
\<close>

theorem primaryInteraction_order:
  "primaryInteraction page = firstSuccess (attempt page) strategyOrder \<and>
   strategyOrder =
     [Submit (TagAttrEq ''button'' ''type'' ''submit''),
      Submit (TagAttrEq ''input'' ''type'' ''submit''),
      Submit (Contains ''Send''), Submit (Contains ''Submit''), Submit (Contains ''Ask''),
      Submit (Contains ''Go''), Submit (Contains ''Enter''),
      Submit (ClassSel ''send-btn''), Submit (ClassSel ''submit-btn''),
      Submit (IdSel ''send''), Submit (IdSel ''submit''), Submit (IdSel ''send-btn''),
      Submit (Tag ''button''),
      Fallback (AttrIncludes ''onclick'' ''send''), Fallback (AttrIncludes ''onclick'' ''submit''),
      Fallback (AttrIncludes ''class'' ''send''), Fallback (AttrIncludes ''class'' ''submit''),
      Fallback (AttrIncludes ''id'' ''send''), Fallback (AttrIncludes ''id'' ''submit''),
      Fallback (TagAttrEq ''input'' ''type'' ''button''), Fallback (AttrEq ''role'' ''button''),
      AnyClickable] \<and>
   primaryInteraction_tab page = firstSuccess (attempt_tab page) strategyOrder_tab \<and>
   strategyOrder_tab =
     [Submit (TagAttrEq ''button'' ''type'' ''submit''),
      Submit (TagAttrEq ''input'' ''type'' ''submit''),
      Submit (Contains ''Submit''), Submit (Contains ''Send''), Submit (Contains ''Ask''),
      Submit (Tag ''button''),
      Submit (ClassSel ''submit-btn''), Submit (ClassSel ''send-btn''),
      Submit (IdSel ''submit''), Submit (IdSel ''send-btn''),
      AnyClickable] \<and>
   (\<forall>st el. primaryInteraction page = Some (st, el) \<longrightarrow>
      el \<in> set page \<and> clickable el \<and>
      (\<exists>before after. strategyOrder = before @ st # after \<and> attempt page st = Some el \<and>
         (\<forall>b \<in> set before. attempt page b = None))) \<and>
   (primaryInteraction page = None \<longleftrightarrow> (\<forall>st \<in> set strategyOrder. attempt page st = None)) \<and>
   (\<forall>st el. primaryInteraction_tab page = Some (st, el) \<longrightarrow>
      el \<in> set page \<and> clickable el \<and>
      (\<exists>before after. strategyOrder_tab = before @ st # after \<and> attempt_tab page st = Some el \<and>
         (\<forall>b \<in> set before. attempt_tab page b = None))) \<and>
   (primaryInteraction_tab page = None \<longleftrightarrow>
      (\<forall>st \<in> set strategyOrder_tab. attempt_tab page st = None))"
proof -
  have a: "\<And>st el. primaryInteraction page = Some (st, el) \<Longrightarrow>
      el \<in> set page \<and> clickable el \<and>
      (\<exists>before after. strategyOrder = before @ st # after \<and> attempt page st = Some el \<and>
         (\<forall>b \<in> set before. attempt page b = None))"
  proof -
    fix st el assume "primaryInteraction page = Some (st, el)"
    then have "firstSuccess (attempt page) strategyOrder = Some (st, el)"
      by (simp add: primaryInteraction_firstSuccess)
    from firstSuccess_Some [OF this] obtain before after where
      h: "strategyOrder = before @ st # after" "attempt page st = Some el"
         "\<forall>b \<in> set before. attempt page b = None" by blast
    from attempt_Some [OF h(2)] h
    show "el \<in> set page \<and> clickable el \<and>
      (\<exists>before after. strategyOrder = before @ st # after \<and> attempt page st = Some el \<and>
         (\<forall>b \<in> set before. attempt page b = None))" by blast
  qed
  have b: "\<And>st el. primaryInteraction_tab page = Some (st, el) \<Longrightarrow>
      el \<in> set page \<and> clickable el \<and>
      (\<exists>before after. strategyOrder_tab = before @ st # after \<and> attempt_tab page st = Some el \<and>
         (\<forall>b \<in> set before. attempt_tab page b = None))"
  proof -
    fix st el assume "primaryInteraction_tab page = Some (st, el)"
    then have "firstSuccess (attempt_tab page) strategyOrder_tab = Some (st, el)"
      by (simp add: primaryInteraction_tab_firstSuccess)
    from firstSuccess_Some [OF this] obtain before after where
      h: "strategyOrder_tab = before @ st # after" "attempt_tab page st = Some el"
         "\<forall>b \<in> set before. attempt_tab page b = None" by blast
    from attempt_tab_Some [OF h(2)] h
    show "el \<in> set page \<and> clickable el \<and>
      (\<exists>before after. strategyOrder_tab = before @ st # after \<and> attempt_tab page st = Some el \<and>
         (\<forall>b \<in> set before. attempt_tab page b = None))" by blast
  qed
  have c: "primaryInteraction page = None \<longleftrightarrow> (\<forall>st \<in> set strategyOrder. attempt page st = None)"
    by (simp only: primaryInteraction_firstSuccess firstSuccess_None)
  have d: "primaryInteraction_tab page = None \<longleftrightarrow>
      (\<forall>st \<in> set strategyOrder_tab. attempt_tab page st = None)"
    by (simp only: primaryInteraction_tab_firstSuccess firstSuccess_None)
  show ?thesis
    using a b c d
    by (intro conjI allI impI)
      (simp_all only: primaryInteraction_firstSuccess [symmetric]
        primaryInteraction_tab_firstSuccess [symmetric] strategyOrder_explicit [symmetric]
        strategyOrder_tab_explicit [symmetric])
qed

theorem primaryInteraction_order_witness:
  "primaryInteraction heuristicPage = Some (Submit (Tag ''button''), helloButton) \<and>
   helloButton \<in> set heuristicPage \<and> clickable helloButton \<and>
   attempt heuristicPage (Submit (Tag ''button'')) = Some helloButton \<and>
   primaryInteraction_tab heuristicPage = Some (Submit (Tag ''button''), helloButton) \<and>
   attempt_tab heuristicPage (Submit (Tag ''button'')) = Some helloButton \<and>
   primaryInteraction [] = None \<and> primaryInteraction_tab [] = None"
proof -
  note t = primaryInteraction_order [of heuristicPage]
  have 1: "helloButton \<in> set heuristicPage \<and> clickable helloButton \<and>
      attempt heuristicPage (Submit (Tag ''button'')) = Some helloButton"
    using t heuristicPage_code by blast
  have 2: "attempt_tab heuristicPage (Submit (Tag ''button'')) = Some helloButton"
    using t heuristicPage_tab by blast
  have 3: "primaryInteraction [] = None"
    by (simp add: primaryInteraction_def submitSelectors_def fallbackSelectors_def
        trySubmitSelector_def querySelectorAll_def anyClickableLoop_def querySelectorAllGroup_def)
  have 4: "primaryInteraction_tab [] = None"
    by (simp add: primaryInteraction_tab_def submitSelectors_tab_def
        trySubmitSelector_tab_def querySelectorAll_def querySelectorAllGroup_def)
  show ?thesis
    using 1 2 3 4 heuristicPage_code heuristicPage_tab by simp
qed

text \<open>
  Claim C8 as stated fails. On a page whose first element matches only an attribute
  heuristic (its class holds "send") and whose second element is a plain button, the
  order the claim states clicks the first element; the script clicks the button, found
  by the selector \<^verbatim>\<open>button\<close> of its first list before any heuristic is tried.
\<close>

theorem heuristic_order_counterexample:
  "primaryInteraction heuristicPage = Some (Submit (Tag ''button''), helloButton) \<and>
   claimedInteraction heuristicPage = Some sendArea \<and>
   attempt heuristicPage (Fallback (AttrIncludes ''class'' ''send'')) = Some sendArea \<and>
   sendArea \<noteq> helloButton"
proof -
  have "attempt heuristicPage (Fallback (AttrIncludes ''class'' ''send'')) = Some sendArea"
    by (simp add: querySelectorAll_def heuristicPage_def sendArea_def helloButton_def
        getAttribute_def)
  moreover have "sendArea \<noteq> helloButton"
    by (simp add: sendArea_def helloButton_def)
  ultimately show ?thesis
    using heuristicPage_code heuristicPage_claimed by simp
qed

section \<open>Properties of the bounded campaign\<close>

subsection \<open>One stretch of a worker\<close>




lemma settled_not_inFlight: "w_pc w = Settled \<Longrightarrow> \<not> inFlight w"
  by (simp add: inFlight_def)

lemma allSettled_inFlight: "allSettled ws \<Longrightarrow> filter inFlight ws = []"
  by (induction ws) (auto simp: allSettled_def inFlight_def)

subsection \<open>The dispatch loop\<close>







subsection \<open>Counting the workers in flight\<close>








lemma launched_inFlight: "launched u w \<Longrightarrow> inFlight w \<and> handlesOk w"
  by (simp add: launched_def inFlight_def handlesOk_def)




subsection \<open>The callback of a URL\<close>


subsection \<open>The invariant holds at the start and after every event\<close>














subsection \<open>Launches need budget\<close>

lemma whileLoop_launches:
  "c_launches (whileLoop cfg c) \<noteq> c_launches c \<Longrightarrow> shouldContinue_bounded cfg (c_telemetry c)"
  by (auto simp: whileLoop_def finalReport_def split: if_splits)


lemma initial_launches:
  "c_launches (runEnhancedAutomation_bounded cfg) \<noteq> [] \<Longrightarrow> 0 < MAX_CLICKS cfg"
  using whileLoop_launches [of cfg "\<lparr>c_telemetry = initialTelemetry, c_tasks = [], c_background = [],
                    c_pc = AwaitingCycle, cycleCount = 1, c_launches = []\<rparr>"]
  by (simp add: runEnhancedAutomation_bounded_def shouldContinue_bounded_def initialTelemetry_def)


subsection \<open>The order of the launches\<close>














subsection \<open>The scenario\<close>





lemma overlap_run:
  "run scenarioConfig overlapEvents (runEnhancedAutomation_bounded scenarioConfig) =
     Some overlapOutcome"
  by code_simp

text \<open>The bound on the counter is reached in the scenario.\<close>

lemma bound_is_reached:
  "reachable scenarioConfig overlapOutcome \<and> c_pc overlapOutcome = CampaignFinished \<and>
   globalClickCounter (c_telemetry overlapOutcome) =
     MAX_CLICKS scenarioConfig +
       length (cfg_urls scenarioConfig) * concurrentTabsPerUrl scenarioConfig - 1"
proof -
  have "reachable scenarioConfig overlapOutcome"
    unfolding reachable_def using overlap_run by blast
  moreover have "c_pc overlapOutcome = CampaignFinished \<and>
      globalClickCounter (c_telemetry overlapOutcome) = 4"
    by code_simp
  ultimately show ?thesis
    by (simp add: scenarioConfig_def)
qed

subsection \<open>The sequential campaign\<close>







lemma numbered_length: "numbered t \<Longrightarrow> length (clickReportData t) = globalClickCounter t"
proof -
  assume "numbered t"
  then have "length (map clickNumber (clickReportData t)) = length [1..<Suc (globalClickCounter t)]"
    by (simp only: numbered_def)
  then show ?thesis by simp
qed

subsection \<open>The budget\<close>




subsection \<open>List order\<close>




section \<open>Properties of concurrent completions\<close>

lemma incrementClickCounter_resume_frame:
  "globalClickCounter (snd (incrementClickCounter_resume out p t)) = globalClickCounter t \<and>
   clickReportData (snd (incrementClickCounter_resume out p t)) = clickReportData t"
  by (cases p)
    (auto simp: Let_def addClickRecord_settled_def generateCSVReport_settled_def
      incrementClickCounter_pause_def split: outcome.splits)

lemma incrementClickCounter_bounded_resume_frame:
  "globalClickCounter (snd (incrementClickCounter_bounded_resume m out p t)) =
     globalClickCounter t \<and>
   clickReportData (snd (incrementClickCounter_bounded_resume m out p t)) = clickReportData t"
  by (cases p)
    (auto simp: Let_def addClickRecord_settled_def generateCSVReport_settled_def
      split: outcome.splits)

lemma incrementClickCounter_numbered:
  assumes "numbered t"
  shows "numbered (snd (incrementClickCounter d t)) \<and>
         globalClickCounter (snd (incrementClickCounter d t)) = globalClickCounter t + 1 \<and>
         (\<exists>p. fst (incrementClickCounter d t) = Suspended p)"
  using assms by (simp add: incrementClickCounter_def addClickRecord_def Let_def numbered_def)

lemma filter_update_length:
  "k < length xs \<Longrightarrow>
   length (filter P (xs[k := y])) + (if P (xs ! k) then 1 else 0) =
   length (filter P xs) + (if P y then 1 else 0)"
proof (induction xs arbitrary: k)
  case Nil
  then show ?case by simp
next
  case (Cons x xs)
  show ?case
  proof (cases k)
    case 0
    then show ?thesis by simp
  next
    case (Suc k')
    with Cons.prems have "k' < length xs" by simp
    from Cons.IH [OF this] Suc show ?thesis by simp
  qed
qed

lemma started_finishCall: "started (finishCall r) \<longleftrightarrow> True"
  by (cases r) simp_all

lemma callStep_ok:
  assumes frame: "\<And>out p t. globalClickCounter (snd (resume out p t)) = globalClickCounter t \<and>
                     clickReportData (snd (resume out p t)) = clickReportData t"
    and ok: "callsOk (calls, t)" and k: "k < length calls"
    and st: "callStep resume out (calls ! k) t = Some (c', t')"
  shows "callsOk (calls[k := c'], t')"
proof (cases "calls ! k")
  case (NotCalled d)
  from ok have num: "numbered t" by (simp add: callsOk_def)
  from st NotCalled have c': "c' = finishCall (fst (incrementClickCounter d t))"
    and t': "t' = snd (incrementClickCounter d t)"
    by (auto split: prod.splits)
  from incrementClickCounter_numbered [OF num, of d] t'
  have n': "numbered t'" and cnt: "globalClickCounter t' = globalClickCounter t + 1"
    by simp_all
  from filter_update_length [OF k, of started c'] NotCalled c'
  have "length (filter started (calls[k := c'])) = length (filter started calls) + 1"
    by (simp add: started_finishCall)
  with ok n' cnt show ?thesis by (simp add: callsOk_def)
next
  case (Running p)
  from st Running have c': "c' = finishCall (fst (resume out p t))"
    and t': "t' = snd (resume out p t)"
    by (auto split: prod.splits)
  from frame [of out p t] t'
  have same: "globalClickCounter t' = globalClickCounter t" "clickReportData t' = clickReportData t"
    by simp_all
  from filter_update_length [OF k, of started c'] Running c'
  have "length (filter started (calls[k := c'])) = length (filter started calls)"
    by (simp add: started_finishCall)
  with ok same show ?thesis by (simp add: callsOk_def numbered_def)
next
  case (Finished v)
  with st show ?thesis by simp
qed

lemma runCalls_ok:
  assumes frame: "\<And>out p t. globalClickCounter (snd (resume out p t)) = globalClickCounter t \<and>
                     clickReportData (snd (resume out p t)) = clickReportData t"
  shows "runCalls resume evs (calls, t) = Some (calls', t') \<Longrightarrow> callsOk (calls, t) \<Longrightarrow>
         callsOk (calls', t') \<and> length calls' = length calls"
proof (induction evs arbitrary: calls t)
  case Nil
  then show ?case by simp
next
  case (Cons ev evs)
  obtain k out where ev: "ev = (k, out)" by (cases ev)
  from Cons.prems(1) ev have k: "k < length calls"
    by (simp split: if_splits)
  with Cons.prems(1) ev obtain c1 t1 where
    st: "callStep resume out (calls ! k) t = Some (c1, t1)"
    and rest: "runCalls resume evs (calls[k := c1], t1) = Some (calls', t')"
    by (auto split: option.splits)
  from callStep_ok [OF frame Cons.prems(2) k st] have "callsOk (calls[k := c1], t1)" .
  from Cons.IH [OF rest this] show ?case by simp
qed

lemma all_finished_started: "list_all finished calls \<Longrightarrow> filter started calls = calls"
proof (induction calls)
  case Nil
  then show ?case by simp
next
  case (Cons c calls)
  then show ?case by (cases c) simp_all
qed

lemma initial_callsOk: "callsOk (map NotCalled ds, initialTelemetry)"
  by (induction ds) (simp_all add: callsOk_def initialTelemetry_def numbered_def)

lemma concurrent_calls:
  assumes frame: "\<And>out p t. globalClickCounter (snd (resume out p t)) = globalClickCounter t \<and>
                     clickReportData (snd (resume out p t)) = clickReportData t"
    and run: "runCalls resume evs (map NotCalled ds, initialTelemetry) = Some (calls, t)"
  shows "globalClickCounter t = length (filter started calls) \<and>
         map clickNumber (clickReportData t) = [1..<Suc (globalClickCounter t)] \<and>
         distinct (map clickNumber (clickReportData t)) \<and>
         (list_all finished calls \<longrightarrow>
            globalClickCounter t = length ds \<and>
            length (clickReportData t) = length ds \<and>
            set (map clickNumber (clickReportData t)) = {1..length ds})"
proof -
  from runCalls_ok [OF frame run initial_callsOk]
  have ok: "callsOk (calls, t)" and len: "length calls = length ds"
    by simp_all
  then have cnt: "globalClickCounter t = length (filter started calls)"
    and num: "map clickNumber (clickReportData t) = [1..<Suc (globalClickCounter t)]"
    by (simp_all add: callsOk_def numbered_def)
  have dist: "distinct (map clickNumber (clickReportData t))"
    unfolding num by simp
  have fin: "globalClickCounter t = length ds \<and> length (clickReportData t) = length ds \<and>
      set (map clickNumber (clickReportData t)) = {1..length ds}"
    if "list_all finished calls"
  proof -
    from all_finished_started [OF that] cnt len have n: "globalClickCounter t = length ds"
      by simp
    from ok have "length (clickReportData t) = globalClickCounter t"
      by (simp add: callsOk_def numbered_length)
    moreover have "set (map clickNumber (clickReportData t)) = {1..globalClickCounter t}"
      unfolding num by (simp only: set_upt atLeastLessThanSuc_atLeastAtMost)
    ultimately show ?thesis using n by simp
  qed
  from cnt num dist fin show ?thesis by blast
qed


lemma example_run:
  "runCalls incrementClickCounter_resume exampleSchedule
     (map NotCalled exampleData, initialTelemetry) = Some exampleOutcome"
  by code_simp

lemma example_outcome:
  "list_all finished (fst exampleOutcome) \<and>
   map clickNumber (clickReportData (snd exampleOutcome)) = [1, 2, 3] \<and>
   map url (clickReportData (snd exampleOutcome)) =
     [''https://example.org/0'', ''https://example.org/1'', ''https://example.org/2'']"
  by code_simp

text \<open>
  Claim C2. Any number of calls of \<^verbatim>\<open>incrementClickCounter\<close>, of either variant, started
  and resumed in any order, with any outcome of the file operations they wait for: at
  every moment the counter is the number of calls that have started and the records
  carry the numbers from one up to the counter, each once, in the order the calls
  started. When all N calls have finished the counter is N, there are N records, and the
  set of their numbers is {1..N}. The increment and the numbering of the record are in
  the same stretch of code, before the first await of the call, so no other call runs
  between them.
\<close>

theorem concurrent_completions_numbered:
  assumes "resume = incrementClickCounter_resume \<or>
           resume = incrementClickCounter_bounded_resume m"
    and "runCalls resume evs (map NotCalled ds, initialTelemetry) = Some (calls, t)"
  shows "globalClickCounter t = length (filter started calls) \<and>
         map clickNumber (clickReportData t) = [1..<Suc (globalClickCounter t)] \<and>
         distinct (map clickNumber (clickReportData t)) \<and>
         (list_all finished calls \<longrightarrow>
            globalClickCounter t = length ds \<and>
            length (clickReportData t) = length ds \<and>
            set (map clickNumber (clickReportData t)) = {1..length ds})"
proof -
  have "\<And>out p t. globalClickCounter (snd (resume out p t)) = globalClickCounter t \<and>
                  clickReportData (snd (resume out p t)) = clickReportData t"
    using assms(1) incrementClickCounter_resume_frame incrementClickCounter_bounded_resume_frame
    by blast
  from concurrent_calls [OF this assms(2)] show ?thesis .
qed

theorem concurrent_completions_witness:
  "runCalls incrementClickCounter_resume exampleSchedule
     (map NotCalled exampleData, initialTelemetry) = Some exampleOutcome \<and>
   list_all finished (fst exampleOutcome) \<and>
   globalClickCounter (snd exampleOutcome) = length exampleData \<and>
   length (clickReportData (snd exampleOutcome)) = length exampleData \<and>
   distinct (map clickNumber (clickReportData (snd exampleOutcome))) \<and>
   set (map clickNumber (clickReportData (snd exampleOutcome))) = {1..length exampleData}"
proof -
  from example_outcome have fin: "list_all finished (fst exampleOutcome)"
    by (rule conjunct1)
  have r: "runCalls incrementClickCounter_resume exampleSchedule
      (map NotCalled exampleData, initialTelemetry) = Some (fst exampleOutcome, snd exampleOutcome)"
    using example_run by simp
  from concurrent_completions_numbered [OF disjI1 [OF refl] r] fin example_run
  show ?thesis by blast
qed

end
